theory Spec2Isabelle
  imports
    Complex_Main
    "HOL-Library.Word"
    "HOL-Library.AList"
    "HOL-Library.Char_ord"
    "HOL-Library.List_Lexorder"
    "HOL-Library.Log_Nat"
begin

section \<open>Partitioning mode resolution\<close>

text \<open>
  The test file of package \<^verbatim>\<open>disk\<close> (\<^verbatim>\<open>src/unnamed/part_000\<close>) names the four
  partitioning modes and builds its mountpoint requests from
  \<^verbatim>\<open>blueprint.FilesystemCustomization{Mountpoint, MinSize}\<close>; \<^verbatim>\<open>MinSize\<close> is a
  \<^verbatim>\<open>uint64\<close>.
\<close>

datatype PartitioningMode =
    DefaultPartitioningMode
  | AutoLVMPartitioningMode
  | LVMPartitioningMode
  | RawPartitioningMode

record FilesystemCustomization =
  fc_Mountpoint :: string
  fc_MinSize :: "64 word"

definition GiB :: "64 word" where
  "GiB = 1024 * 1024 * 1024"

text \<open>
  Modelled from the spec: the heuristic of the \<open>AutoLVM\<close> mode in section 4.3 asks
  for a requested mountpoint that is not the root and declares a positive minimum
  size. The code that applies it is not among the source files.
\<close>

definition sized_secondary :: "FilesystemCustomization \<Rightarrow> bool" where
  "sized_secondary mp = (fc_Mountpoint mp \<noteq> ''/'' \<and> 0 < fc_MinSize mp)"

text \<open>
  Modelled from the spec: \<^verbatim>\<open>NewPartitionTable\<close>, which decides whether the new
  table gets an LVM volume group, is called by the tests but is not among the source
  files. \<open>resolve\<close> follows the steps of the spec's section 4.3 in their order: the
  requested mode, replaced by the table's default when it is \<open>Default\<close>, replaced by
  \<open>AutoLVM\<close> when it is still \<open>Default\<close>, and then the decision.
\<close>

definition resolve ::
  "PartitioningMode option \<Rightarrow> PartitioningMode \<Rightarrow> FilesystemCustomization list \<Rightarrow> bool" where
  "resolve default_mode requested_mode mountpoints =
     (let m = requested_mode;
          m = (if m = DefaultPartitioningMode
               then (case default_mode of None \<Rightarrow> DefaultPartitioningMode | Some d \<Rightarrow> d)
               else m);
          m = (if m = DefaultPartitioningMode then AutoLVMPartitioningMode else m)
      in if m = RawPartitioningMode then False
         else if m = LVMPartitioningMode then True
         else list_ex sized_secondary mountpoints)"

text \<open>
  The table of \<^verbatim>\<open>TestPartitionTableDefaultPartitioningMode\<close>, in the order of the
  source: the table's default mode (\<open>None\<close> is the nil pointer), the requested mode,
  the mountpoints and the expected presence of LVM in the new table.
\<close>

record testCase =
  defaultMode :: "PartitioningMode option"
  requestedMode :: PartitioningMode
  mountpoints :: "FilesystemCustomization list"
  isLVM :: bool

definition var10 :: "FilesystemCustomization list" where
  "var10 = [\<lparr>fc_Mountpoint = ''/var'', fc_MinSize = 10 * GiB\<rparr>]"

definition testCases :: "testCase list" where
  "testCases =
    [\<lparr>defaultMode = None, requestedMode = DefaultPartitioningMode, mountpoints = [], isLVM = False\<rparr>,
     \<lparr>defaultMode = Some DefaultPartitioningMode, requestedMode = DefaultPartitioningMode,
        mountpoints = [], isLVM = False\<rparr>,
     \<lparr>defaultMode = None, requestedMode = AutoLVMPartitioningMode, mountpoints = [], isLVM = False\<rparr>,
     \<lparr>defaultMode = Some DefaultPartitioningMode, requestedMode = AutoLVMPartitioningMode,
        mountpoints = [], isLVM = False\<rparr>,
     \<lparr>defaultMode = None, requestedMode = LVMPartitioningMode, mountpoints = [], isLVM = True\<rparr>,
     \<lparr>defaultMode = Some DefaultPartitioningMode, requestedMode = LVMPartitioningMode,
        mountpoints = [], isLVM = True\<rparr>,
     \<lparr>defaultMode = None, requestedMode = RawPartitioningMode, mountpoints = [], isLVM = False\<rparr>,
     \<lparr>defaultMode = Some DefaultPartitioningMode, requestedMode = RawPartitioningMode,
        mountpoints = [], isLVM = False\<rparr>,
     \<lparr>defaultMode = None, requestedMode = DefaultPartitioningMode, mountpoints = var10, isLVM = True\<rparr>,
     \<lparr>defaultMode = Some DefaultPartitioningMode, requestedMode = DefaultPartitioningMode,
        mountpoints = var10, isLVM = True\<rparr>,
     \<lparr>defaultMode = Some AutoLVMPartitioningMode, requestedMode = DefaultPartitioningMode,
        mountpoints = var10, isLVM = True\<rparr>,
     \<lparr>defaultMode = Some LVMPartitioningMode, requestedMode = DefaultPartitioningMode,
        mountpoints = var10, isLVM = True\<rparr>,
     \<lparr>defaultMode = Some RawPartitioningMode, requestedMode = DefaultPartitioningMode,
        mountpoints = var10, isLVM = False\<rparr>,
     \<lparr>defaultMode = Some LVMPartitioningMode, requestedMode = RawPartitioningMode,
        mountpoints = var10, isLVM = False\<rparr>,
     \<lparr>defaultMode = Some AutoLVMPartitioningMode, requestedMode = RawPartitioningMode,
        mountpoints = var10, isLVM = False\<rparr>,
     \<lparr>defaultMode = Some RawPartitioningMode, requestedMode = LVMPartitioningMode,
        mountpoints = var10, isLVM = True\<rparr>,
     \<lparr>defaultMode = Some RawPartitioningMode, requestedMode = AutoLVMPartitioningMode,
        mountpoints = var10, isLVM = True\<rparr>]"

definition passes :: "testCase \<Rightarrow> bool" where
  "passes tc = (resolve (defaultMode tc) (requestedMode tc) (mountpoints tc) = isLVM tc)"

section \<open>Go values and JSON documents\<close>

text \<open>
  \<^verbatim>\<open>UnmarshalTOML\<close> receives a Go value of type \<^verbatim>\<open>any\<close>, and the \<^verbatim>\<open>minsize\<close> fields
  are read into \<^verbatim>\<open>any\<close> before \<^verbatim>\<open>decodeSize\<close> looks at them. \<open>goval\<close> lists the
  dynamic types such a value has when it comes from a TOML decoder or from
  \<^verbatim>\<open>encoding/json\<close>: nil, bool, int64, float64, string, \<^verbatim>\<open>[]any\<close> and
  \<^verbatim>\<open>map[string]any\<close>. A float64 is either a finite value, held as the rational it
  denotes, or one of NaN and the two infinities. A Go map is listed as its key/value
  pairs; the lookup \<^verbatim>\<open>d[k]\<close> is \<open>map_of d k\<close>, so of two pairs with one key only the
  first is in the map.
\<close>

datatype float64 = Finite rat | NaN | PosInf | NegInf

datatype goval =
    GNil
  | GBool bool
  | GInt64 "64 word"
  | GFloat64 float64
  | GString string
  | GSlice "goval list"
  | GMap "(string \<times> goval) list"

text \<open>
  The decoders of the package never see the text of a JSON document, only what
  \<^verbatim>\<open>encoding/json\<close> reads from it, so a document is its tree of values; the members
  of an object are kept in the order of the text, repeated keys included. Every number
  that the decoders accept is read into \<^verbatim>\<open>any\<close>, that is into a float64, so a number
  is held as the float64 its literal denotes (literals beyond the range of float64 are
  not represented). Strings are taken to be valid UTF-8.
\<close>

datatype json =
    JNull
  | JBool bool
  | JNumber rat
  | JString string
  | JArray "json list"
  | JObject "(string \<times> json) list"

text \<open>
  What \<^verbatim>\<open>encoding/json\<close> stores into a variable of type \<^verbatim>\<open>any\<close>. In the map read
  from an object the last of several members with one key wins, hence the reversal.
\<close>

primrec anyOfJSON :: "json \<Rightarrow> goval" where
  "anyOfJSON JNull = GNil"
| "anyOfJSON (JBool b) = GBool b"
| "anyOfJSON (JNumber q) = GFloat64 (Finite q)"
| "anyOfJSON (JString s) = GString s"
| "anyOfJSON (JArray xs) = GSlice (map anyOfJSON xs)"
| "anyOfJSON (JObject kvs) = GMap (rev (map (map_prod id anyOfJSON) kvs))"

text \<open>
  The float64 nearest to an integer, ties to the even mantissa of 53 bits:
  \<^verbatim>\<open>json.Marshal\<close> writes an int64 with all its digits, and the decoder that reads
  the digits back into \<^verbatim>\<open>any\<close> rounds them.
\<close>

definition float64_of_int :: "int \<Rightarrow> rat" where
  "float64_of_int n =
     (let a = \<bar>n\<bar>; k = bitlen a - 53
      in if k \<le> 0 then of_int n
         else let p = 2 ^ nat k; q = a div p; r = a mod p; h = p div 2;
                  q' = (if h < r \<or> (r = h \<and> odd q) then q + 1 else q)
              in of_int (sgn n * q' * p))"

text \<open>
  Errors are values. The first three are those of \<^verbatim>\<open>encoding/json\<close> (a value of the
  wrong JSON type for a Go field, a key that names no field of a strict decoder, a
  float that JSON cannot express); \<open>InvalidSize\<close> is what \<^verbatim>\<open>decodeSize\<close> returns.
  The others are the \<^verbatim>\<open>fmt.Errorf\<close> calls of
  \<^verbatim>\<open>partitioning_customizations.go\<close>, one constructor for each format string, with
  the prefix, the partition type or the wrapped error as arguments.
\<close>

datatype error =
    UnmarshalTypeError string string
  | UnknownField string
  | UnsupportedValue float64
  | InvalidSize goval
  | PartitionDecodeError string error
  | Prefixed string error
  | UnknownPartitionType string string
  | MinsizeError string error
  | NotAnObject string
  | TypeNotString string goval
  | MarshalError string error

fun sequence :: "(error + 'a) list \<Rightarrow> error + 'a list" where
  "sequence [] = Inr []"
| "sequence (r # rs) =
     (case r of Inl e \<Rightarrow> Inl e
      | Inr x \<Rightarrow> (case sequence rs of Inl e \<Rightarrow> Inl e | Inr xs \<Rightarrow> Inr (x # xs)))"

fun sequence_members :: "('k \<times> (error + 'a)) list \<Rightarrow> error + ('k \<times> 'a) list" where
  "sequence_members [] = Inr []"
| "sequence_members ((k, r) # rs) =
     (case r of Inl e \<Rightarrow> Inl e
      | Inr x \<Rightarrow> (case sequence_members rs of Inl e \<Rightarrow> Inl e | Inr xs \<Rightarrow> Inr ((k, x) # xs)))"

text \<open>
  \<^verbatim>\<open>json.Marshal\<close> on a value of type \<^verbatim>\<open>any\<close>: the members of a map are written
  in the byte order of their keys, each key once, and the first value that cannot be
  written (a NaN or an infinity) is the error.
\<close>

primrec marshal :: "goval \<Rightarrow> error + json" where
  "marshal GNil = Inr JNull"
| "marshal (GBool b) = Inr (JBool b)"
| "marshal (GInt64 n) = Inr (JNumber (float64_of_int (sint n)))"
| "marshal (GFloat64 f) = (case f of Finite q \<Rightarrow> Inr (JNumber q) | _ \<Rightarrow> Inl (UnsupportedValue f))"
| "marshal (GString s) = Inr (JString s)"
| "marshal (GSlice xs) = map_sum id JArray (sequence (map marshal xs))"
| "marshal (GMap kvs) =
     map_sum id JObject
       (sequence_members (sort_key fst (AList.clearjunk (map (map_prod id marshal) kvs))))"

section \<open>The customization structs\<close>

text \<open>
  The structs of \<^verbatim>\<open>partitioning_customizations.go\<close>. An embedded struct is a field
  named after its type. Where two structs have a field of one name, the fields of
  \<^verbatim>\<open>LVCustomization\<close> carry the prefix \<open>lv_\<close> and those of
  \<^verbatim>\<open>BtrfsSubvolumeCustomization\<close> the prefix \<open>sv_\<close>. A slice is a list (a nil slice
  and an empty one are both \<open>[]\<close>), and the \<open>zero\<close> constants are Go's zero values.
\<close>

record FilesystemTypedCustomization =
  Mountpoint :: string
  Label :: string
  FSType :: string

record LVCustomization =
  lv_Name :: string
  lv_MinSize :: "64 word"
  lv_FilesystemTypedCustomization :: FilesystemTypedCustomization

record VGCustomization =
  Name :: string
  LogicalVolumes :: "LVCustomization list"

record BtrfsSubvolumeCustomization =
  sv_Name :: string
  sv_Mountpoint :: string

record BtrfsVolumeCustomization =
  Subvolumes :: "BtrfsSubvolumeCustomization list"

record PartitionCustomization =
  Type :: string
  MinSize :: "64 word"
  BtrfsVolumeCustomization :: BtrfsVolumeCustomization
  VGCustomization :: VGCustomization
  FilesystemTypedCustomization :: FilesystemTypedCustomization

definition zeroFS :: FilesystemTypedCustomization where
  "zeroFS = \<lparr>Mountpoint = [], Label = [], FSType = []\<rparr>"

definition zeroLV :: LVCustomization where
  "zeroLV = \<lparr>lv_Name = [], lv_MinSize = 0, lv_FilesystemTypedCustomization = zeroFS\<rparr>"

definition zeroVG :: VGCustomization where
  "zeroVG = \<lparr>Name = [], LogicalVolumes = []\<rparr>"

definition zeroSubvolume :: BtrfsSubvolumeCustomization where
  "zeroSubvolume = \<lparr>sv_Name = [], sv_Mountpoint = []\<rparr>"

definition zeroBtrfs :: BtrfsVolumeCustomization where
  "zeroBtrfs = \<lparr>Subvolumes = []\<rparr>"

definition zeroPartition :: PartitionCustomization where
  "zeroPartition = \<lparr>Type = [], MinSize = 0, BtrfsVolumeCustomization = zeroBtrfs,
     VGCustomization = zeroVG, FilesystemTypedCustomization = zeroFS\<rparr>"

section \<open>Decoding a JSON object into a struct\<close>

text \<open>
  The part of \<^verbatim>\<open>encoding/json\<close> that the package relies on. A key of the document
  names the field whose JSON name it equals or, failing that, the field whose name it
  equals when letter case is folded. \<open>foldName\<close> folds as the library does on names
  whose folded form is ASCII: a to z become upper case, and so do the two runes beyond
  ASCII that fold to one, U+017F (bytes C5 BF, to S) and U+212A (bytes E2 84 AA, to K).
\<close>

fun foldName :: "string \<Rightarrow> string" where
  "foldName [] = []"
| "foldName (c # cs) =
     (if c = CHR 0xC5 \<and> take 1 cs = [CHR 0xBF] then CHR ''S'' # foldName (drop 1 cs)
      else if c = CHR 0xE2 \<and> take 2 cs = [CHR 0x84, CHR 0xAA] then CHR ''K'' # foldName (drop 2 cs)
      else if CHR ''a'' \<le> c \<and> c \<le> CHR ''z'' then char_of (of_char c - (32::nat)) # foldName cs
      else c # foldName cs)"

definition findField :: "(string \<times> 'f) list \<Rightarrow> string \<Rightarrow> 'f option" where
  "findField flds key =
     (case map_of flds key of
        Some f \<Rightarrow> Some f
      | None \<Rightarrow> map_of (map (\<lambda>(name, f). (foldName name, f)) flds) (foldName key))"

text \<open>
  The decoder has one piece of state beside the value it fills, the saved error: a
  value of the wrong type or an unknown key does not stop it, the first such error is
  kept (\<^verbatim>\<open>saveError\<close>) and returned when the document has been read. An error that a
  custom \<^verbatim>\<open>UnmarshalJSON\<close> method returns stops it at once. A \<open>setter\<close> stores one
  JSON value into a Go value of type \<open>'s\<close>: it gets the saved error and returns the
  stopping error, or the new value and the saved error. A struct type is the list of
  its JSON field names, each with the setter of the field.
\<close>

type_synonym 's setter = "json \<Rightarrow> 's \<Rightarrow> error option \<Rightarrow> error + ('s \<times> error option)"

definition saveError :: "error option \<Rightarrow> error \<Rightarrow> error option" where
  "saveError savedError err = (case savedError of None \<Rightarrow> Some err | Some e \<Rightarrow> Some e)"

fun kindOf :: "json \<Rightarrow> string" where
  "kindOf JNull = ''null''"
| "kindOf (JBool b) = ''bool''"
| "kindOf (JNumber q) = ''number''"
| "kindOf (JString s) = ''string''"
| "kindOf (JArray xs) = ''array''"
| "kindOf (JObject kvs) = ''object''"

text \<open>
  The members of an object, in the order of the document. A key that names no field is
  skipped, and with \<^verbatim>\<open>DisallowUnknownFields\<close> it is an error to save.
\<close>

fun object_loop ::
  "bool \<Rightarrow> (string \<times> 's setter) list \<Rightarrow> (string \<times> json) list \<Rightarrow> 's \<Rightarrow> error option
     \<Rightarrow> error + ('s \<times> error option)" where
  "object_loop disallowUnknownFields flds [] s savedError = Inr (s, savedError)"
| "object_loop disallowUnknownFields flds ((key, val) # kvs) s savedError =
     (case findField flds key of
        None \<Rightarrow>
          object_loop disallowUnknownFields flds kvs s
            (if disallowUnknownFields then saveError savedError (UnknownField key) else savedError)
      | Some store \<Rightarrow>
          (case store val s savedError of
             Inl err \<Rightarrow> Inl err
           | Inr (s', savedError') \<Rightarrow> object_loop disallowUnknownFields flds kvs s' savedError'))"

text \<open>
  A struct is read from an object; \<^verbatim>\<open>null\<close> leaves it as it is, and any other value
  is a type error. A string is read from a string, and \<^verbatim>\<open>null\<close> leaves it as it
  is. A variable of type \<^verbatim>\<open>any\<close> takes every value.
\<close>

definition decode_struct :: "bool \<Rightarrow> (string \<times> 's setter) list \<Rightarrow> 's setter" where
  "decode_struct disallowUnknownFields flds val s savedError =
     (case val of
        JObject kvs \<Rightarrow> object_loop disallowUnknownFields flds kvs s savedError
      | JNull \<Rightarrow> Inr (s, savedError)
      | _ \<Rightarrow> Inr (s, saveError savedError (UnmarshalTypeError (kindOf val) ''struct'')))"

definition decode_string :: "string \<Rightarrow> ('s \<Rightarrow> string \<Rightarrow> 's) \<Rightarrow> 's setter" where
  "decode_string name upd val s savedError =
     (case val of
        JString x \<Rightarrow> Inr (upd s x, savedError)
      | JNull \<Rightarrow> Inr (s, savedError)
      | _ \<Rightarrow> Inr (s, saveError savedError (UnmarshalTypeError (kindOf val) name)))"

definition decode_any :: "('s \<Rightarrow> goval \<Rightarrow> 's) \<Rightarrow> 's setter" where
  "decode_any upd val s savedError = Inr (upd s (anyOfJSON val), savedError)"

text \<open>
  A slice is read from an array, element by element: the element at an index that the
  slice already has (after an earlier member with the same key) is decoded into, a new
  one starts from the zero value. \<^verbatim>\<open>null\<close> empties the slice. (In Go a slice that
  a second array has shortened keeps its old elements in its capacity, and a third,
  longer array for the same key would decode into them; documents with three members
  of one slice key are not modelled to that depth.)
\<close>

fun array_loop :: "'e setter \<Rightarrow> 'e \<Rightarrow> json list \<Rightarrow> 'e list \<Rightarrow> error option
     \<Rightarrow> error + ('e list \<times> error option)" where
  "array_loop elem zero [] old savedError = Inr ([], savedError)"
| "array_loop elem zero (val # vals) old savedError =
     (case elem val (case old of [] \<Rightarrow> zero | e # es \<Rightarrow> e) savedError of
        Inl err \<Rightarrow> Inl err
      | Inr (e', savedError') \<Rightarrow>
          (case array_loop elem zero vals (tl old) savedError' of
             Inl err \<Rightarrow> Inl err
           | Inr (es', savedError'') \<Rightarrow> Inr (e' # es', savedError'')))"

definition decode_slice ::
  "string \<Rightarrow> 'e setter \<Rightarrow> 'e \<Rightarrow> ('s \<Rightarrow> 'e list) \<Rightarrow> ('s \<Rightarrow> 'e list \<Rightarrow> 's) \<Rightarrow> 's setter" where
  "decode_slice name elem zero get upd val s savedError =
     (case val of
        JArray vals \<Rightarrow>
          (case array_loop elem zero vals (get s) savedError of
             Inl err \<Rightarrow> Inl err
           | Inr (es, savedError') \<Rightarrow> Inr (upd s es, savedError'))
      | JNull \<Rightarrow> Inr (upd s [], savedError)
      | _ \<Rightarrow> Inr (s, saveError savedError (UnmarshalTypeError (kindOf val) name)))"

text \<open>
  \<^verbatim>\<open>json.Unmarshal\<close> into a struct (\<open>disallowUnknownFields\<close> false) and
  \<^verbatim>\<open>Decoder.Decode\<close> after \<^verbatim>\<open>DisallowUnknownFields\<close> (true): the document is
  decoded, and the saved error, if there is one, is the result.
\<close>

definition unmarshal :: "bool \<Rightarrow> (string \<times> 's setter) list \<Rightarrow> json \<Rightarrow> 's \<Rightarrow> error + 's" where
  "unmarshal disallowUnknownFields flds data s =
     (case decode_struct disallowUnknownFields flds data s None of
        Inl err \<Rightarrow> Inl err
      | Inr (s', Some err) \<Rightarrow> Inl err
      | Inr (s', None) \<Rightarrow> Inr s')"

text \<open>
  The fields of an embedded struct are fields of the struct that embeds it
  (\<open>promote\<close>). A value whose type has an \<^verbatim>\<open>UnmarshalJSON\<close> method is decoded by
  that method, which gets the value's part of the document; its error stops the
  decoder (\<open>unmarshaler\<close>).
\<close>

definition embedded :: "('s \<Rightarrow> 'b) \<Rightarrow> ('s \<Rightarrow> 'b \<Rightarrow> 's) \<Rightarrow> 'b setter \<Rightarrow> 's setter" where
  "embedded get upd store val s savedError =
     (case store val (get s) savedError of
        Inl err \<Rightarrow> Inl err
      | Inr (b, savedError') \<Rightarrow> Inr (upd s b, savedError'))"

definition promote ::
  "('s \<Rightarrow> 'b) \<Rightarrow> ('s \<Rightarrow> 'b \<Rightarrow> 's) \<Rightarrow> (string \<times> 'b setter) list \<Rightarrow> (string \<times> 's setter) list" where
  "promote get upd flds = map (\<lambda>(name, store). (name, embedded get upd store)) flds"

definition unmarshaler :: "('e \<Rightarrow> json \<Rightarrow> error + 'e) \<Rightarrow> 'e setter" where
  "unmarshaler unmarshalJSON val e savedError =
     (case unmarshalJSON e val of Inl err \<Rightarrow> Inl err | Inr e' \<Rightarrow> Inr (e', savedError))"

section \<open>The decoders of the partition customizations\<close>

text \<open>
  \<^verbatim>\<open>decodeSize\<close> is called by the decoders but defined in a file that is not among
  the sources, so every decoder takes it as its first argument: a function from the
  value read for \<^verbatim>\<open>minsize\<close> to an error or a \<^verbatim>\<open>uint64\<close>. A method that decodes
  into its receiver takes the receiver and returns the error, or the receiver as the
  method leaves it; what a method has written to its receiver before it returns an
  error is not part of the result.

  The struct types, by their field tags. \<^verbatim>\<open>Subvolumes\<close> has no tag, so its JSON name
  is the name of the Go field.
\<close>

definition FilesystemTypedCustomization_flds ::
  "(string \<times> FilesystemTypedCustomization setter) list" where
  "FilesystemTypedCustomization_flds =
     [(''mountpoint'', decode_string ''mountpoint'' (\<lambda>s x. s\<lparr>Mountpoint := x\<rparr>)),
      (''label'', decode_string ''label'' (\<lambda>s x. s\<lparr>Label := x\<rparr>)),
      (''fs_type'', decode_string ''fs_type'' (\<lambda>s x. s\<lparr>FSType := x\<rparr>))]"

text \<open>
  \<^verbatim>\<open>LVCustomization.UnmarshalJSON\<close> (lines 75 to 96) reads the document into the
  local struct \<^verbatim>\<open>lvAnySize\<close> with \<^verbatim>\<open>json.Unmarshal\<close>, copies the name and the
  filesystem, and decodes the minimum size when one was read.
\<close>

record lvAnySize =
  la_Name :: string
  la_MinSize :: goval
  la_FilesystemTypedCustomization :: FilesystemTypedCustomization

definition zero_lvAnySize :: lvAnySize where
  "zero_lvAnySize = \<lparr>la_Name = [], la_MinSize = GNil, la_FilesystemTypedCustomization = zeroFS\<rparr>"

definition lvAnySize_flds :: "(string \<times> lvAnySize setter) list" where
  "lvAnySize_flds =
     [(''name'', decode_string ''name'' (\<lambda>s x. s\<lparr>la_Name := x\<rparr>)),
      (''minsize'', decode_any (\<lambda>s x. s\<lparr>la_MinSize := x\<rparr>))]
     @ promote la_FilesystemTypedCustomization (\<lambda>s b. s\<lparr>la_FilesystemTypedCustomization := b\<rparr>)
         FilesystemTypedCustomization_flds"

definition LVCustomization_UnmarshalJSON ::
  "(goval \<Rightarrow> error + 64 word) \<Rightarrow> LVCustomization \<Rightarrow> json \<Rightarrow> error + LVCustomization" where
  "LVCustomization_UnmarshalJSON decodeSize lv data =
     (case unmarshal False lvAnySize_flds data zero_lvAnySize of
        Inl err \<Rightarrow> Inl err
      | Inr lvAnySize \<Rightarrow>
          (let lv = lv\<lparr>lv_Name := la_Name lvAnySize,
                     lv_FilesystemTypedCustomization := la_FilesystemTypedCustomization lvAnySize\<rparr>
           in if la_MinSize lvAnySize \<noteq> GNil
              then (case decodeSize (la_MinSize lvAnySize) of
                      Inl err \<Rightarrow> Inl err
                    | Inr sz \<Rightarrow> Inr (lv\<lparr>lv_MinSize := sz\<rparr>))
              else Inr lv))"

definition VGCustomization_flds ::
  "(goval \<Rightarrow> error + 64 word) \<Rightarrow> (string \<times> VGCustomization setter) list" where
  "VGCustomization_flds decodeSize =
     [(''name'', decode_string ''name'' (\<lambda>s x. s\<lparr>Name := x\<rparr>)),
      (''logical_volumes'',
         decode_slice ''logical_volumes'' (unmarshaler (LVCustomization_UnmarshalJSON decodeSize)) zeroLV
           LogicalVolumes (\<lambda>s x. s\<lparr>LogicalVolumes := x\<rparr>))]"

definition BtrfsSubvolumeCustomization_flds ::
  "(string \<times> BtrfsSubvolumeCustomization setter) list" where
  "BtrfsSubvolumeCustomization_flds =
     [(''name'', decode_string ''name'' (\<lambda>s x. s\<lparr>sv_Name := x\<rparr>)),
      (''mountpoint'', decode_string ''mountpoint'' (\<lambda>s x. s\<lparr>sv_Mountpoint := x\<rparr>))]"

definition BtrfsVolumeCustomization_flds ::
  "bool \<Rightarrow> (string \<times> BtrfsVolumeCustomization setter) list" where
  "BtrfsVolumeCustomization_flds disallowUnknownFields =
     [(''Subvolumes'',
         decode_slice ''Subvolumes''
           (decode_struct disallowUnknownFields BtrfsSubvolumeCustomization_flds) zeroSubvolume
           Subvolumes (\<lambda>s x. s\<lparr>Subvolumes := x\<rparr>))]"

text \<open>
  The local struct \<^verbatim>\<open>typeSniffer\<close> of \<^verbatim>\<open>UnmarshalJSON\<close>, and the local structs
  \<^verbatim>\<open>plain\<close>, \<^verbatim>\<open>btrfs\<close> and \<^verbatim>\<open>vg\<close> of the three variant decoders: a type, a minimum
  size of type \<^verbatim>\<open>any\<close>, and the embedded struct of the variant.
\<close>

record typeSniffer =
  ts_Type :: string
  ts_MinSize :: goval

definition zero_typeSniffer :: typeSniffer where
  "zero_typeSniffer = \<lparr>ts_Type = [], ts_MinSize = GNil\<rparr>"

definition typeSniffer_flds :: "(string \<times> typeSniffer setter) list" where
  "typeSniffer_flds =
     [(''type'', decode_string ''type'' (\<lambda>s x. s\<lparr>ts_Type := x\<rparr>)),
      (''minsize'', decode_any (\<lambda>s x. s\<lparr>ts_MinSize := x\<rparr>))]"

record 'b typed =
  td_Type :: string
  td_MinSize :: goval
  td_embedded :: 'b

definition zero_typed :: "'b \<Rightarrow> 'b typed" where
  "zero_typed b = \<lparr>td_Type = [], td_MinSize = GNil, td_embedded = b\<rparr>"

definition typed_flds :: "(string \<times> 'b setter) list \<Rightarrow> (string \<times> 'b typed setter) list" where
  "typed_flds flds =
     [(''type'', decode_string ''type'' (\<lambda>s x. s\<lparr>td_Type := x\<rparr>)),
      (''minsize'', decode_any (\<lambda>s x. s\<lparr>td_MinSize := x\<rparr>))]
     @ promote td_embedded (\<lambda>s b. s\<lparr>td_embedded := b\<rparr>) flds"

text \<open>
  \<^verbatim>\<open>decodePlain\<close>, \<^verbatim>\<open>decodeBtrfs\<close> and \<^verbatim>\<open>decodeLVM\<close> (lines 166 to 229): a strict
  decoder fills the local struct, and the embedded struct is copied into the receiver
  \<open>v\<close>, whose other fields stay as they are. The functions return the receiver as they
  leave it; after an error only the error is returned.
\<close>

definition decodePlain :: "PartitionCustomization \<Rightarrow> json \<Rightarrow> error + PartitionCustomization" where
  "decodePlain v data =
     (case unmarshal True (typed_flds FilesystemTypedCustomization_flds) data (zero_typed zeroFS) of
        Inl err \<Rightarrow> Inl (PartitionDecodeError ''plain'' err)
      | Inr plain \<Rightarrow> Inr (v\<lparr>FilesystemTypedCustomization := td_embedded plain\<rparr>))"

definition decodeBtrfs :: "PartitionCustomization \<Rightarrow> json \<Rightarrow> error + PartitionCustomization" where
  "decodeBtrfs v data =
     (case unmarshal True (typed_flds (BtrfsVolumeCustomization_flds True)) data (zero_typed zeroBtrfs) of
        Inl err \<Rightarrow> Inl (PartitionDecodeError ''btrfs'' err)
      | Inr btrfs \<Rightarrow> Inr (v\<lparr>BtrfsVolumeCustomization := td_embedded btrfs\<rparr>))"

definition decodeLVM ::
  "(goval \<Rightarrow> error + 64 word) \<Rightarrow> PartitionCustomization \<Rightarrow> json \<Rightarrow> error + PartitionCustomization" where
  "decodeLVM decodeSize v data =
     (case unmarshal True (typed_flds (VGCustomization_flds decodeSize)) data (zero_typed zeroVG) of
        Inl err \<Rightarrow> Inl (PartitionDecodeError ''lvm'' err)
      | Inr vg \<Rightarrow> Inr (v\<lparr>VGCustomization := td_embedded vg\<rparr>))"

text \<open>
  The \<^verbatim>\<open>switch partType\<close> that \<^verbatim>\<open>UnmarshalJSON\<close> (lines 133 to 148) and
  \<^verbatim>\<open>UnmarshalTOML\<close> (lines 257 to 272) both have, with the prefix of the caller.
\<close>

definition decodeByType ::
  "(goval \<Rightarrow> error + 64 word) \<Rightarrow> string \<Rightarrow> string \<Rightarrow> PartitionCustomization \<Rightarrow> json
     \<Rightarrow> error + PartitionCustomization" where
  "decodeByType decodeSize errPrefix partType v data =
     (if partType = ''plain'' then
        (case decodePlain v data of Inl err \<Rightarrow> Inl (Prefixed errPrefix err) | Inr v' \<Rightarrow> Inr v')
      else if partType = ''btrfs'' then
        (case decodeBtrfs v data of Inl err \<Rightarrow> Inl (Prefixed errPrefix err) | Inr v' \<Rightarrow> Inr v')
      else if partType = ''lvm'' then
        (case decodeLVM decodeSize v data of Inl err \<Rightarrow> Inl (Prefixed errPrefix err) | Inr v' \<Rightarrow> Inr v')
      else Inl (UnknownPartitionType errPrefix partType))"

text \<open>\<^verbatim>\<open>PartitionCustomization.UnmarshalJSON\<close> (lines 118 to 161).\<close>

definition UnmarshalJSON ::
  "(goval \<Rightarrow> error + 64 word) \<Rightarrow> PartitionCustomization \<Rightarrow> json \<Rightarrow> error + PartitionCustomization" where
  "UnmarshalJSON decodeSize v data =
     (let errPrefix = ''JSON unmarshal:'' in
      case unmarshal False typeSniffer_flds data zero_typeSniffer of
        Inl err \<Rightarrow> Inl (Prefixed errPrefix err)
      | Inr typeSniffer \<Rightarrow>
          (let partType = (if ts_Type typeSniffer \<noteq> [] then ts_Type typeSniffer else ''plain'') in
           case decodeByType decodeSize errPrefix partType v data of
             Inl err \<Rightarrow> Inl err
           | Inr v \<Rightarrow>
               (let v = v\<lparr>Type := partType\<rparr> in
                if ts_MinSize typeSniffer \<noteq> GNil
                then (case decodeSize (ts_MinSize typeSniffer) of
                        Inl err \<Rightarrow> Inl (MinsizeError errPrefix err)
                      | Inr minsize \<Rightarrow> Inr (v\<lparr>MinSize := minsize\<rparr>))
                else Inr v)))"

text \<open>
  \<^verbatim>\<open>PartitionCustomization.UnmarshalTOML\<close> (lines 236 to 285): the type assertion on
  the input, the lookup of \<^verbatim>\<open>type\<close> in the map and the type assertion on what is
  found, the serialisation to JSON, the switch, and the lookup of \<^verbatim>\<open>minsize\<close> in the
  map.
\<close>

definition UnmarshalTOML ::
  "(goval \<Rightarrow> error + 64 word) \<Rightarrow> PartitionCustomization \<Rightarrow> goval \<Rightarrow> error + PartitionCustomization" where
  "UnmarshalTOML decodeSize v data =
     (let errPrefix = ''TOML unmarshal:'' in
      case data of
        GMap d \<Rightarrow>
          (case (case map_of d ''type'' of
                   None \<Rightarrow> Inr ''plain''
                 | Some typeField \<Rightarrow>
                     (case typeField of
                        GString typeStr \<Rightarrow> Inr typeStr
                      | _ \<Rightarrow> Inl (TypeNotString errPrefix typeField))) of
             Inl err \<Rightarrow> Inl err
           | Inr partType \<Rightarrow>
               (case marshal data of
                  Inl err \<Rightarrow> Inl (MarshalError errPrefix err)
                | Inr dataJSON \<Rightarrow>
                    (case decodeByType decodeSize errPrefix partType v dataJSON of
                       Inl err \<Rightarrow> Inl err
                     | Inr v \<Rightarrow>
                         (let v = v\<lparr>Type := partType\<rparr> in
                          case map_of d ''minsize'' of
                            Some minsizeField \<Rightarrow>
                              (case decodeSize minsizeField of
                                 Inl err \<Rightarrow> Inl (MinsizeError errPrefix err)
                               | Inr minsize \<Rightarrow> Inr (v\<lparr>MinSize := minsize\<rparr>))
                          | None \<Rightarrow> Inr v))))
      | _ \<Rightarrow> Inl (NotAnObject errPrefix))"

text \<open>
  Modelled from the spec: \<^verbatim>\<open>decodeSize\<close> is not among the source files. The
  theorems below hold for every function in its place; \<open>decodeSizeInt\<close> is the
  instance on which concrete documents are evaluated. It is the integer half of the
  size parser of the spec's section 4.1: a non-negative integer is the number of
  bytes, a negative one is refused. It also refuses strings, whose grammar
  the spec gives only by example, so no document evaluated below has a string size.
\<close>

definition decodeSizeInt :: "goval \<Rightarrow> error + 64 word" where
  "decodeSizeInt sz =
     (case sz of
        GInt64 n \<Rightarrow> if sint n < 0 then Inl (InvalidSize sz) else Inr n
      | GFloat64 f \<Rightarrow>
          (case f of
             Finite q \<Rightarrow>
               if 0 \<le> q \<and> q < 2 ^ 64 \<and> of_int \<lfloor>q\<rfloor> = q then Inr (word_of_int \<lfloor>q\<rfloor>)
               else Inl (InvalidSize sz)
           | _ \<Rightarrow> Inl (InvalidSize sz))
      | _ \<Rightarrow> Inl (InvalidSize sz))"

section \<open>The vocabulary of the statements\<close>

text \<open>
  The partition type that each decoder selects before it decodes the variant:
  \<open>sniffType\<close> is lines 120 to 131 of \<^verbatim>\<open>UnmarshalJSON\<close>, and \<open>lookupType\<close> is
  lines 243 to 250 of \<^verbatim>\<open>UnmarshalTOML\<close>.
\<close>

definition sniffType :: "json \<Rightarrow> error + string" where
  "sniffType data =
     (case unmarshal False typeSniffer_flds data zero_typeSniffer of
        Inl err \<Rightarrow> Inl err
      | Inr typeSniffer \<Rightarrow> Inr (if ts_Type typeSniffer \<noteq> [] then ts_Type typeSniffer else ''plain''))"

definition lookupType :: "(string \<times> goval) list \<Rightarrow> error + string" where
  "lookupType d =
     (case map_of d ''type'' of
        None \<Rightarrow> Inr ''plain''
      | Some typeField \<Rightarrow>
          (case typeField of
             GString typeStr \<Rightarrow> Inr typeStr
           | _ \<Rightarrow> Inl (TypeNotString ''TOML unmarshal:'' typeField)))"

text \<open>
  The three partition types, the JSON names of the fields that the embedded struct of
  each brings (\<open>variantFields\<close>), the names of all fields of the local struct of its
  decoder (\<open>variantKeys\<close>), and the fields of the other two variants
  (\<open>foreignFields\<close>); the names of the fields of \<^verbatim>\<open>lvAnySize\<close>; and what it is for
  a key of a document to name one of a list of fields.
\<close>

definition partTypes :: "string list" where
  "partTypes = [''plain'', ''btrfs'', ''lvm'']"

definition variantFields :: "string \<Rightarrow> string list" where
  "variantFields partType =
     (if partType = ''plain'' then [''mountpoint'', ''label'', ''fs_type'']
      else if partType = ''btrfs'' then [''Subvolumes'']
      else if partType = ''lvm'' then [''name'', ''logical_volumes'']
      else [])"

definition variantKeys :: "string \<Rightarrow> string list" where
  "variantKeys partType = ''type'' # ''minsize'' # variantFields partType"

definition foreignFields :: "string \<Rightarrow> string list" where
  "foreignFields partType =
     concat (map variantFields (filter (\<lambda>other. other \<noteq> partType) partTypes))"

definition lvKeys :: "string list" where
  "lvKeys = [''name'', ''minsize'', ''mountpoint'', ''label'', ''fs_type'']"

definition validKey :: "string list \<Rightarrow> string \<Rightarrow> bool" where
  "validKey names key = (foldName key \<in> set (map foldName names))"

text \<open>
  Two results are the same when both are errors or both are the same value.
\<close>

definition sameResult :: "error + 'a \<Rightarrow> error + 'a \<Rightarrow> bool" where
  "sameResult r1 r2 = (case r1 of Inl e \<Rightarrow> isl r2 | Inr a \<Rightarrow> r2 = Inr a)"

text \<open>
  A setter keeps errors when it never returns without a saved error after it was
  given one. Every setter above does, which is why a strict decoder that has met an
  unknown key cannot succeed any more.
\<close>

definition keeps :: "'s setter \<Rightarrow> bool" where
  "keeps store = (\<forall>val s e r. store val s (Some e) = Inr r \<longrightarrow> snd r \<noteq> None)"

section \<open>Properties of the mode resolution\<close>

lemma sized_secondary_var10: "list_ex sized_secondary var10"
  by (simp add: var10_def sized_secondary_def GiB_def)

text \<open>
  The resolver of the spec gives, on each of the seventeen rows of the test table, the
  answer the test expects of the table that \<^verbatim>\<open>NewPartitionTable\<close> builds.
\<close>

lemma resolve_passes_testCases: "list_all passes testCases"
  using sized_secondary_var10 by (simp add: testCases_def passes_def resolve_def)

text \<open>
  The five scenarios that the spec lists in its section 8.
\<close>

lemma resolve_scenarios:
  "\<not> resolve None DefaultPartitioningMode []
   \<and> resolve None DefaultPartitioningMode var10
   \<and> \<not> resolve (Some LVMPartitioningMode) RawPartitioningMode var10
   \<and> resolve (Some RawPartitioningMode) AutoLVMPartitioningMode var10
   \<and> resolve None LVMPartitioningMode []"
  using sized_secondary_var10 by (simp add: resolve_def)

text \<open>
  C1. An explicit request decides alone: with the requested mode \<open>Raw\<close> the result is
  false and with the requested mode \<open>LVM\<close> it is true, whatever the table's default
  mode (none included) and whatever the mountpoints.
\<close>

theorem resolve_explicit_request:
  "resolve default_mode RawPartitioningMode mps = False
   \<and> resolve default_mode LVMPartitioningMode mps = True"
  by (simp add: resolve_def)

theorem resolve_explicit_request_witness:
  "resolve (Some LVMPartitioningMode) RawPartitioningMode var10 = False
   \<and> resolve (Some RawPartitioningMode) LVMPartitioningMode [] = True"
  using resolve_explicit_request [of "Some LVMPartitioningMode" var10]
    resolve_explicit_request [of "Some RawPartitioningMode" "[]"]
  by simp

text \<open>
  C2. When the requested mode is \<open>AutoLVM\<close>, or it is \<open>Default\<close> and the table has no
  default mode or the default mode \<open>Default\<close>, the result is true exactly when some
  requested mountpoint is not the root and has a positive minimum size. The resolver
  is a total function into the booleans: it has no error to return.
\<close>

theorem resolve_auto_lvm:
  assumes "requested_mode = AutoLVMPartitioningMode
    \<or> (requested_mode = DefaultPartitioningMode
        \<and> (default_mode = None \<or> default_mode = Some DefaultPartitioningMode))"
  shows "resolve default_mode requested_mode mps
    = (\<exists>mp \<in> set mps. fc_Mountpoint mp \<noteq> ''/'' \<and> 0 < fc_MinSize mp)"
  using assms by (auto simp: resolve_def list_ex_iff sized_secondary_def)

theorem resolve_auto_lvm_witness:
  "resolve None DefaultPartitioningMode var10
   \<and> \<not> resolve (Some DefaultPartitioningMode) DefaultPartitioningMode []
   \<and> resolve (Some RawPartitioningMode) AutoLVMPartitioningMode var10"
  using resolve_auto_lvm [of DefaultPartitioningMode None var10]
    resolve_auto_lvm [of DefaultPartitioningMode "Some DefaultPartitioningMode" "[]"]
    resolve_auto_lvm [of AutoLVMPartitioningMode "Some RawPartitioningMode" var10]
  by (simp add: var10_def GiB_def)

section \<open>Strict and lenient decoding\<close>

text \<open>
  The equations of \<open>foldName\<close> are used on concrete names only, where the folded
  name is computed once.
\<close>

declare foldName.simps [simp del]

lemma foldName_type [simp]: "foldName ''type'' = ''TYPE''"
  by code_simp

lemma foldName_minsize [simp]: "foldName ''minsize'' = ''MINSIZE''"
  by code_simp

lemma saveError_Some [simp]: "saveError (Some e) err = Some e"
  by (simp add: saveError_def)

lemma saveError_not_None [simp]: "saveError saved err \<noteq> None"
  by (simp add: saveError_def split: option.splits)

lemma keepsD: "keeps store \<Longrightarrow> store val s (Some e) = Inr (s', saved) \<Longrightarrow> saved \<noteq> None"
  unfolding keeps_def by fastforce

lemma keeps_decode_string: "keeps (decode_string name upd)"
  by (auto simp: keeps_def decode_string_def split: json.splits)

lemma keeps_decode_any: "keeps (decode_any upd)"
  by (auto simp: keeps_def decode_any_def)

lemma keeps_unmarshaler: "keeps (unmarshaler f)"
  by (auto simp: keeps_def unmarshaler_def split: sum.splits)

lemma keeps_embedded: "keeps store \<Longrightarrow> keeps (embedded get upd store)"
  by (auto simp: keeps_def embedded_def split: sum.splits prod.splits)

lemma array_loop_keeps:
  "keeps elem \<Longrightarrow> array_loop elem zero vals old (Some e) = Inr (es, saved) \<Longrightarrow> saved \<noteq> None"
proof (induction vals arbitrary: old e es saved)
  case Nil
  then show ?case by auto
next
  case (Cons val vals)
  from Cons.prems(2) obtain e1 s1 es1 where
    step: "elem val (case old of [] \<Rightarrow> zero | x # xs \<Rightarrow> x) (Some e) = Inr (e1, s1)"
    and rest: "array_loop elem zero vals (tl old) s1 = Inr (es1, saved)"
    by (auto split: sum.splits prod.splits)
  from keepsD [OF Cons.prems(1) step] obtain e' where "s1 = Some e'" by auto
  with rest Cons.IH [OF Cons.prems(1)] show ?case by blast
qed

lemma keeps_decode_slice: "keeps elem \<Longrightarrow> keeps (decode_slice name elem zero get upd)"
  unfolding keeps_def [of "decode_slice name elem zero get upd"]
  by (auto simp: decode_slice_def split: json.splits sum.splits prod.splits dest: array_loop_keeps)

lemma findField_in_set: "findField flds key = Some store \<Longrightarrow> store \<in> snd ` set flds"
  by (auto simp: findField_def split: option.splits dest!: map_of_SomeD) force+

lemma findField_None_iff:
  "findField flds key = None \<longleftrightarrow> foldName key \<notin> set (map (foldName \<circ> fst) flds)"
proof -
  have folded: "map_of (map (\<lambda>(name, f). (foldName name, f)) flds) (foldName key) = None
    \<longleftrightarrow> foldName key \<notin> set (map (foldName \<circ> fst) flds)"
    by (auto simp: map_of_eq_None_iff image_iff split: prod.splits)
  have exact: "map_of flds key = Some f \<Longrightarrow> foldName key \<in> set (map (foldName \<circ> fst) flds)" for f
    by (auto dest!: map_of_SomeD simp: image_iff) force
  show ?thesis
    using folded exact by (auto simp: findField_def split: option.splits)
qed

lemma findField_validKey: "findField flds key \<noteq> None \<longleftrightarrow> validKey (map fst flds) key"
  by (simp add: findField_None_iff validKey_def)

text \<open>Once an error is saved, the loop over the members cannot end without one.\<close>

lemma object_loop_keeps:
  "\<forall>store \<in> snd ` set flds. keeps store \<Longrightarrow>
   object_loop dis flds kvs s (Some e) = Inr (s', saved) \<Longrightarrow> saved \<noteq> None"
proof (induction kvs arbitrary: s e)
  case Nil
  then show ?case by auto
next
  case (Cons kv kvs)
  obtain key val where kv: "kv = (key, val)" by (cases kv)
  show ?case
  proof (cases "findField flds key")
    case None
    with Cons.prems(2) kv have "object_loop dis flds kvs s (Some e) = Inr (s', saved)"
      by (cases dis) simp_all
    with Cons.IH [OF Cons.prems(1)] show ?thesis .
  next
    case (Some store)
    with Cons.prems(2) kv obtain s1 saved1 where
      step: "store val s (Some e) = Inr (s1, saved1)"
      and rest: "object_loop dis flds kvs s1 saved1 = Inr (s', saved)"
      by (auto split: sum.splits prod.splits)
    from findField_in_set [OF Some] Cons.prems(1) have "keeps store" by blast
    from keepsD [OF this step] obtain e' where "saved1 = Some e'" by auto
    with rest Cons.IH [OF Cons.prems(1)] show ?thesis by blast
  qed
qed

lemma keeps_decode_struct:
  "\<forall>store \<in> snd ` set flds. keeps store \<Longrightarrow> keeps (decode_struct dis flds)"
proof -
  assume flds: "\<forall>store \<in> snd ` set flds. keeps store"
  have "snd r \<noteq> None" if "decode_struct dis flds val s (Some e) = Inr r" for val s e r
  proof (cases val)
    case (JObject kvs)
    with that have "object_loop dis flds kvs s (Some e) = Inr (fst r, snd r)"
      by (simp add: decode_struct_def)
    from object_loop_keeps [OF flds this] show ?thesis .
  qed (use that in \<open>auto simp: decode_struct_def\<close>)
  then show ?thesis
    unfolding keeps_def by blast
qed

text \<open>
  A strict decoder that succeeds has found a field for every key of the object: an
  unknown key saves an error, and a saved error is never dropped.
\<close>

lemma object_loop_strict:
  "\<forall>store \<in> snd ` set flds. keeps store \<Longrightarrow>
   object_loop True flds kvs s saved = Inr (s', None) \<Longrightarrow>
   \<forall>key \<in> fst ` set kvs. findField flds key \<noteq> None"
proof (induction kvs arbitrary: s saved)
  case Nil
  then show ?case by simp
next
  case (Cons kv kvs)
  obtain key val where kv: "kv = (key, val)" by (cases kv)
  show ?case
  proof (cases "findField flds key")
    case None
    with Cons.prems(2) kv
    have "object_loop True flds kvs s (saveError saved (UnknownField key)) = Inr (s', None)"
      by simp
    moreover obtain e where "saveError saved (UnknownField key) = Some e"
      using saveError_not_None by (metis option.exhaust)
    ultimately show ?thesis
      using object_loop_keeps [OF Cons.prems(1)] by fastforce
  next
    case (Some store)
    with Cons.prems(2) kv obtain s1 saved1 where
      rest: "object_loop True flds kvs s1 saved1 = Inr (s', None)"
      by (auto split: sum.splits prod.splits)
    from Cons.IH [OF Cons.prems(1) rest] Some kv show ?thesis by simp
  qed
qed

lemma unmarshal_strict:
  assumes "\<forall>store \<in> snd ` set flds. keeps store"
    and "unmarshal True flds (JObject kvs) s = Inr s'"
  shows "\<forall>key \<in> fst ` set kvs. findField flds key \<noteq> None"
proof -
  from assms(2) obtain s1 where "object_loop True flds kvs s None = Inr (s1, None)"
    by (auto simp: unmarshal_def decode_struct_def split: sum.splits prod.splits option.splits)
  from object_loop_strict [OF assms(1) this] show ?thesis .
qed

lemma unmarshal_strict_keys:
  assumes "\<forall>store \<in> snd ` set flds. keeps store"
    and "unmarshal True flds (JObject kvs) s = Inr s'"
  shows "list_all (validKey (map fst flds)) (map fst kvs)"
  using unmarshal_strict [OF assms] unfolding findField_validKey
  by (simp add: list_all_iff)

text \<open>
  A decoder that is not strict does not see the members whose key names no field.
\<close>

lemma object_loop_ignores_unknown:
  "object_loop False flds kvs s saved
   = object_loop False flds (filter (\<lambda>(key, val). validKey (map fst flds) key) kvs) s saved"
proof (induction kvs arbitrary: s saved)
  case Nil
  show ?case by simp
next
  case (Cons kv kvs)
  obtain key val where kv: "kv = (key, val)" by (cases kv)
  show ?case
  proof (cases "findField flds key")
    case None
    then have "\<not> validKey (map fst flds) key"
      using findField_validKey [of flds key] by simp
    with None kv Cons.IH show ?thesis by simp
  next
    case (Some store)
    then have valid: "validKey (map fst flds) key"
      using findField_validKey [of flds key] by simp
    show ?thesis
    proof (cases "store val s saved")
      case (Inl err)
      with kv Some valid show ?thesis by simp
    next
      case (Inr r)
      with kv Some valid Cons.IH [of "fst r" "snd r"] show ?thesis
        by (cases r) simp
    qed
  qed
qed

lemma unmarshal_ignores_unknown:
  "unmarshal False flds (JObject kvs) s
   = unmarshal False flds (JObject (filter (\<lambda>(key, val). validKey (map fst flds) key) kvs)) s"
  using object_loop_ignores_unknown [of flds kvs s None]
  by (simp add: unmarshal_def decode_struct_def)

section \<open>The field names of the structs\<close>

lemma keys_typed_flds: "map fst (typed_flds flds) = ''type'' # ''minsize'' # map fst flds"
  by (simp add: typed_flds_def promote_def comp_def case_prod_beta)

lemma keys_plain: "map fst (typed_flds FilesystemTypedCustomization_flds) = variantKeys ''plain''"
  by (simp add: keys_typed_flds FilesystemTypedCustomization_flds_def variantKeys_def variantFields_def)

lemma keys_btrfs: "map fst (typed_flds (BtrfsVolumeCustomization_flds dis)) = variantKeys ''btrfs''"
  by (simp add: keys_typed_flds BtrfsVolumeCustomization_flds_def variantKeys_def variantFields_def)

lemma keys_lvm: "map fst (typed_flds (VGCustomization_flds decodeSize)) = variantKeys ''lvm''"
  by (simp add: keys_typed_flds VGCustomization_flds_def variantKeys_def variantFields_def)

lemma keys_lvAnySize: "map fst lvAnySize_flds = lvKeys"
  by (simp add: lvAnySize_flds_def promote_def FilesystemTypedCustomization_flds_def lvKeys_def)

lemma keeps_typed_flds:
  "\<forall>store \<in> snd ` set flds. keeps store \<Longrightarrow> \<forall>store \<in> snd ` set (typed_flds flds). keeps store"
  by (auto simp: typed_flds_def promote_def keeps_decode_string keeps_decode_any keeps_embedded)

lemma keeps_FilesystemTypedCustomization_flds:
  "\<forall>store \<in> snd ` set FilesystemTypedCustomization_flds. keeps store"
  by (simp add: FilesystemTypedCustomization_flds_def keeps_decode_string)

lemma keeps_BtrfsSubvolumeCustomization_flds:
  "\<forall>store \<in> snd ` set BtrfsSubvolumeCustomization_flds. keeps store"
  by (simp add: BtrfsSubvolumeCustomization_flds_def keeps_decode_string)

lemma keeps_BtrfsVolumeCustomization_flds:
  "\<forall>store \<in> snd ` set (BtrfsVolumeCustomization_flds dis). keeps store"
  by (simp add: BtrfsVolumeCustomization_flds_def keeps_decode_slice keeps_decode_struct
      keeps_BtrfsSubvolumeCustomization_flds)

lemma keeps_VGCustomization_flds:
  "\<forall>store \<in> snd ` set (VGCustomization_flds decodeSize). keeps store"
  by (simp add: VGCustomization_flds_def keeps_decode_slice keeps_decode_string keeps_unmarshaler)

section \<open>The variant decoders accept only the keys of their variant\<close>

lemma decodePlain_keys:
  assumes "decodePlain v (JObject kvs) = Inr v'"
  shows "list_all (validKey (variantKeys ''plain'')) (map fst kvs)"
proof -
  from assms obtain plain where
    "unmarshal True (typed_flds FilesystemTypedCustomization_flds) (JObject kvs) (zero_typed zeroFS)
     = Inr plain"
    by (auto simp: decodePlain_def split: sum.splits)
  from unmarshal_strict_keys [OF keeps_typed_flds [OF keeps_FilesystemTypedCustomization_flds] this]
  show ?thesis
    by (simp only: keys_plain)
qed

lemma decodeBtrfs_keys:
  assumes "decodeBtrfs v (JObject kvs) = Inr v'"
  shows "list_all (validKey (variantKeys ''btrfs'')) (map fst kvs)"
proof -
  from assms obtain btrfs where
    "unmarshal True (typed_flds (BtrfsVolumeCustomization_flds True)) (JObject kvs) (zero_typed zeroBtrfs)
     = Inr btrfs"
    by (auto simp: decodeBtrfs_def split: sum.splits)
  from unmarshal_strict_keys [OF keeps_typed_flds [OF keeps_BtrfsVolumeCustomization_flds] this]
  show ?thesis
    by (simp only: keys_btrfs)
qed

lemma decodeLVM_keys:
  assumes "decodeLVM decodeSize v (JObject kvs) = Inr v'"
  shows "list_all (validKey (variantKeys ''lvm'')) (map fst kvs)"
proof -
  from assms obtain vg where
    "unmarshal True (typed_flds (VGCustomization_flds decodeSize)) (JObject kvs) (zero_typed zeroVG)
     = Inr vg"
    by (auto simp: decodeLVM_def split: sum.splits)
  from unmarshal_strict_keys [OF keeps_typed_flds [OF keeps_VGCustomization_flds] this]
  show ?thesis
    by (simp only: keys_lvm)
qed

lemma decodeByType_keys:
  assumes "decodeByType decodeSize errPrefix partType v (JObject kvs) = Inr v'"
  shows "partType \<in> set partTypes
    \<and> list_all (validKey (variantKeys partType)) (map fst kvs)"
  using assms decodePlain_keys [of v kvs] decodeBtrfs_keys [of v kvs] decodeLVM_keys [of decodeSize v kvs]
  by (auto simp: decodeByType_def partTypes_def split: if_splits sum.splits)

section \<open>Serialising a map keeps its keys\<close>

lemma sequence_members_keys: "sequence_members rs = Inr xs \<Longrightarrow> map fst xs = map fst rs"
  by (induction rs arbitrary: xs rule: sequence_members.induct) (auto split: sum.splits)

lemma marshal_GMap_keys:
  assumes "marshal (GMap d) = Inr (JObject kvs)"
  shows "set (map fst kvs) = set (map fst d)"
proof -
  from assms have
    "sequence_members (sort_key fst (AList.clearjunk (map (map_prod id marshal) d))) = Inr kvs"
    by (cases "sequence_members (sort_key fst (AList.clearjunk (map (map_prod id marshal) d)))") auto
  from sequence_members_keys [OF this]
  have "map fst kvs = map fst (sort_key fst (AList.clearjunk (map (map_prod id marshal) d)))" .
  then have "set (map fst kvs) = fst ` set (AList.clearjunk (map (map_prod id marshal) d))"
    by simp
  also have "\<dots> = fst ` set (map (map_prod id marshal) d)"
    by (rule dom_clearjunk)
  also have "\<dots> = set (map fst d)"
    by (simp add: image_image)
  finally show ?thesis .
qed

lemma marshal_GMap_is_object: "marshal (GMap d) = Inr j \<Longrightarrow> \<exists>kvs. j = JObject kvs"
  by (auto simp: map_sum_def split: sum.splits)

lemma sequence_members_Inr: "sequence_members rs = Inr xs \<Longrightarrow> rs = map (map_prod id Inr) xs"
  by (induction rs arbitrary: xs rule: sequence_members.induct) (auto split: sum.splits)

lemma distinct_map_insort_key:
  "distinct (map f (insort_key f x xs)) \<longleftrightarrow> f x \<notin> f ` set xs \<and> distinct (map f xs)"
  by (induction xs) (auto simp: set_insort_key)

lemma distinct_map_sort_key: "distinct (map f (sort_key f xs)) \<longleftrightarrow> distinct (map f xs)"
  by (induction xs) (simp_all add: distinct_map_insort_key)

lemma map_of_map_prod_id: "map_of (map (map_prod id f) xs) k = map_option f (map_of xs k)"
  by (induction xs) auto

lemma marshal_GMap_members:
  assumes "marshal (GMap d) = Inr (JObject kvs)"
  shows "distinct (map fst kvs)"
    and "map_option Inr (map_of kvs k) = map_option marshal (map_of d k)"
proof -
  define ms where "ms = map (map_prod id marshal) d"
  define rs where "rs = sort_key fst (AList.clearjunk ms)"
  from assms have "sequence_members rs = Inr kvs"
    unfolding rs_def ms_def
    by (cases "sequence_members (sort_key fst (AList.clearjunk (map (map_prod id marshal) d)))") auto
  from sequence_members_Inr [OF this] have rs: "rs = map (map_prod id Inr) kvs" .
  have drs: "distinct (map fst rs)"
    unfolding rs_def by (simp add: distinct_map_sort_key)
  with rs show "distinct (map fst kvs)"
    by (simp add: comp_def)
  have "map_of rs = map_of (AList.clearjunk ms)"
    using drs unfolding rs_def
    by (intro map_of_inject_set [THEN iffD2]) simp_all
  also have "\<dots> = map_of ms"
    by (rule map_of_clearjunk)
  finally have "map_of rs k = map_of ms k"
    by simp
  moreover have "map_of rs k = map_option Inr (map_of kvs k)"
    unfolding rs by (rule map_of_map_prod_id)
  moreover have "map_of ms k = map_option marshal (map_of d k)"
    unfolding ms_def by (rule map_of_map_prod_id)
  ultimately show "map_option Inr (map_of kvs k) = map_option marshal (map_of d k)"
    by simp
qed


section \<open>The two decoders of a partition customization\<close>

lemma UnmarshalJSON_Inr:
  assumes "UnmarshalJSON decodeSize v data = Inr v'"
  shows "sniffType data = Inr (Type v')
    \<and> (\<exists>v1. decodeByType decodeSize ''JSON unmarshal:'' (Type v') v data = Inr v1)"
  using assms
  by (auto simp: UnmarshalJSON_def sniffType_def Let_def split: sum.splits if_splits)

lemma UnmarshalTOML_Inr:
  assumes "UnmarshalTOML decodeSize v (GMap d) = Inr v'"
  shows "lookupType d = Inr (Type v')
    \<and> (\<exists>dataJSON v1. marshal (GMap d) = Inr dataJSON
          \<and> decodeByType decodeSize ''TOML unmarshal:'' (Type v') v dataJSON = Inr v1)"
  using assms
  by (auto simp: UnmarshalTOML_def lookupType_def Let_def
      split: sum.splits option.splits goval.splits)

lemma sniffType_unknown:
  "sniffType data = Inr partType \<Longrightarrow> partType \<notin> {''plain'', ''btrfs'', ''lvm''} \<Longrightarrow>
   UnmarshalJSON decodeSize v data = Inl (UnknownPartitionType ''JSON unmarshal:'' partType)"
  by (auto simp: sniffType_def UnmarshalJSON_def decodeByType_def Let_def split: sum.splits if_splits)

lemma lookupType_unknown:
  "lookupType d = Inr partType \<Longrightarrow> partType \<notin> {''plain'', ''btrfs'', ''lvm''} \<Longrightarrow>
   UnmarshalTOML decodeSize v (GMap d)
   = (case marshal (GMap d) of
        Inl err \<Rightarrow> Inl (MarshalError ''TOML unmarshal:'' err)
      | Inr dataJSON \<Rightarrow> Inl (UnknownPartitionType ''TOML unmarshal:'' partType))"
  by (auto simp: lookupType_def UnmarshalTOML_def decodeByType_def Let_def
      split: sum.splits option.splits goval.splits)

section \<open>What the type sniffer reads\<close>

lemma findField_typeSniffer:
  "findField typeSniffer_flds key =
     (if foldName key = ''TYPE'' then Some (decode_string ''type'' (\<lambda>s x. s\<lparr>ts_Type := x\<rparr>))
      else if foldName key = ''MINSIZE'' then Some (decode_any (\<lambda>s x. s\<lparr>ts_MinSize := x\<rparr>))
      else None)"
proof -
  have "key = ''type'' \<Longrightarrow> foldName key = ''TYPE''" and "key = ''minsize'' \<Longrightarrow> foldName key = ''MINSIZE''"
    by simp_all
  then show ?thesis
    by (auto simp: findField_def typeSniffer_flds_def)
qed

lemma sniff_loop:
  assumes "distinct (map fst kvs)"
    and "\<forall>key \<in> fst ` set kvs.
           (foldName key = ''TYPE'' \<longrightarrow> key = ''type'') \<and> (foldName key = ''MINSIZE'' \<longrightarrow> key = ''minsize'')"
    and "map_of kvs ''type'' = None \<or> (\<exists>x. map_of kvs ''type'' = Some (JString x))"
  shows "object_loop False typeSniffer_flds kvs s saved
    = Inr (s\<lparr>ts_Type := (case map_of kvs ''type'' of Some (JString x) \<Rightarrow> x | _ \<Rightarrow> ts_Type s),
             ts_MinSize := (case map_of kvs ''minsize'' of Some j \<Rightarrow> anyOfJSON j | None \<Rightarrow> ts_MinSize s)\<rparr>,
           saved)"
  using assms
proof (induction kvs arbitrary: s)
  case Nil
  show ?case by simp
next
  case (Cons kv kvs)
  obtain key val where kv: "kv = (key, val)" by (cases kv)
  from Cons.prems(1) kv have d: "distinct (map fst kvs)" and fresh: "key \<notin> fst ` set kvs"
    by auto
  from Cons.prems(2) have keys: "\<forall>key \<in> fst ` set kvs.
      (foldName key = ''TYPE'' \<longrightarrow> key = ''type'') \<and> (foldName key = ''MINSIZE'' \<longrightarrow> key = ''minsize'')"
    by simp
  from Cons.prems(2) kv have key: "foldName key = ''TYPE'' \<longrightarrow> key = ''type''"
    "foldName key = ''MINSIZE'' \<longrightarrow> key = ''minsize''"
    by simp_all
  consider (type) "key = ''type''" | (minsize) "key = ''minsize''"
    | (other) "foldName key \<noteq> ''TYPE''" "foldName key \<noteq> ''MINSIZE''"
    using key by blast
  then show ?case
  proof cases
    case type
    with fresh have none: "map_of kvs ''type'' = None"
      by (simp add: map_of_eq_None_iff)
    from type Cons.prems(3) kv obtain x where val: "val = JString x"
      by auto
    from Cons.IH [OF d keys, of "s\<lparr>ts_Type := x\<rparr>"] none
    show ?thesis
      by (simp add: kv type val findField_typeSniffer decode_string_def split: option.splits)
  next
    case minsize
    with fresh have none: "map_of kvs ''minsize'' = None"
      by (simp add: map_of_eq_None_iff)
    from minsize Cons.prems(3) kv
    have t: "map_of kvs ''type'' = None \<or> (\<exists>x. map_of kvs ''type'' = Some (JString x))"
      by simp
    from Cons.IH [OF d keys t, of "s\<lparr>ts_MinSize := anyOfJSON val\<rparr>"] none
    show ?thesis
      by (simp add: kv minsize findField_typeSniffer decode_any_def split: option.splits json.splits)
  next
    case other
    then have ne: "key \<noteq> ''type''" "key \<noteq> ''minsize''"
      by auto
    with Cons.prems(3) kv
    have t: "map_of kvs ''type'' = None \<or> (\<exists>x. map_of kvs ''type'' = Some (JString x))"
      by simp
    from Cons.IH [OF d keys t, of s] other ne
    show ?thesis
      by (simp add: kv findField_typeSniffer split: option.splits json.splits)
  qed
qed


text \<open>
  For an object without repeated keys, in which only \<open>type\<close> and \<open>minsize\<close>
  themselves read as these names, and whose \<open>type\<close> member is a string: the sniffer
  selects that string, and \<open>plain\<close> when the string is empty.
\<close>

lemma sniffType_member:
  assumes "distinct (map fst kvs)"
    and "\<forall>key \<in> fst ` set kvs.
           (foldName key = ''TYPE'' \<longrightarrow> key = ''type'') \<and> (foldName key = ''MINSIZE'' \<longrightarrow> key = ''minsize'')"
    and "map_of kvs ''type'' = Some (JString typeStr)"
  shows "sniffType (JObject kvs) = Inr (if typeStr \<noteq> [] then typeStr else ''plain'')"
proof -
  from assms(3) have "map_of kvs ''type'' = None \<or> (\<exists>x. map_of kvs ''type'' = Some (JString x))"
    by simp
  from sniff_loop [OF assms(1,2) this, of zero_typeSniffer None] assms(3)
  show ?thesis
    by (simp add: sniffType_def unmarshal_def decode_struct_def zero_typeSniffer_def)
qed

lemma decodeByType_prefix:
  "decodeByType decodeSize p1 partType v data = Inr a \<Longrightarrow>
   decodeByType decodeSize p2 partType v data = Inr a"
  "isl (decodeByType decodeSize p1 partType v data) \<Longrightarrow>
   isl (decodeByType decodeSize p2 partType v data)"
  by (auto simp: decodeByType_def split: if_splits sum.splits)

lemma sniffed_marshalled:
  assumes m: "marshal (GMap d) = Inr (JObject kvs)"
    and t: "map_of d ''type'' = None
      \<or> (\<exists>typeStr. map_of d ''type'' = Some (GString typeStr) \<and> typeStr \<noteq> [])"
    and k: "\<forall>key \<in> fst ` set d.
      (foldName key = ''TYPE'' \<longrightarrow> key = ''type'') \<and> (foldName key = ''MINSIZE'' \<longrightarrow> key = ''minsize'')"
  shows "unmarshal False typeSniffer_flds (JObject kvs) zero_typeSniffer
    = Inr \<lparr>ts_Type = (case map_of d ''type'' of Some (GString typeStr) \<Rightarrow> typeStr | _ \<Rightarrow> []),
           ts_MinSize = (case map_of kvs ''minsize'' of Some j \<Rightarrow> anyOfJSON j | None \<Rightarrow> GNil)\<rparr>"
proof -
  note mem = marshal_GMap_members [OF m]
  from marshal_GMap_keys [OF m] k
  have keys: "\<forall>key \<in> fst ` set kvs.
      (foldName key = ''TYPE'' \<longrightarrow> key = ''type'') \<and> (foldName key = ''MINSIZE'' \<longrightarrow> key = ''minsize'')"
    by simp
  from t mem(2) [of "''type''"]
  have ty: "(map_of d ''type'' = None \<and> map_of kvs ''type'' = None)
      \<or> (\<exists>typeStr. map_of d ''type'' = Some (GString typeStr) \<and> map_of kvs ''type'' = Some (JString typeStr))"
    by auto
  then have "map_of kvs ''type'' = None \<or> (\<exists>x. map_of kvs ''type'' = Some (JString x))"
    by auto
  from sniff_loop [OF mem(1) keys this, of zero_typeSniffer None] ty
  show ?thesis
    by (auto simp: unmarshal_def decode_struct_def zero_typeSniffer_def split: option.splits)
qed

lemma UnmarshalJSON_sniffed:
  assumes "unmarshal False typeSniffer_flds data zero_typeSniffer = Inr \<lparr>ts_Type = T, ts_MinSize = M\<rparr>"
    and "partType = (if T \<noteq> [] then T else ''plain'')"
  shows "UnmarshalJSON decodeSize v data
    = (case decodeByType decodeSize ''JSON unmarshal:'' partType v data of
         Inl err \<Rightarrow> Inl err
       | Inr v1 \<Rightarrow>
           (if M \<noteq> GNil
            then (case decodeSize M of
                    Inl err \<Rightarrow> Inl (MinsizeError ''JSON unmarshal:'' err)
                  | Inr minsize \<Rightarrow> Inr (v1\<lparr>Type := partType, MinSize := minsize\<rparr>))
            else Inr (v1\<lparr>Type := partType\<rparr>)))"
  unfolding UnmarshalJSON_def Let_def assms by (simp split: sum.splits)

lemma UnmarshalTOML_looked:
  assumes "lookupType d = Inr partType" and "marshal (GMap d) = Inr dataJSON"
  shows "UnmarshalTOML decodeSize v (GMap d)
    = (case decodeByType decodeSize ''TOML unmarshal:'' partType v dataJSON of
         Inl err \<Rightarrow> Inl err
       | Inr v1 \<Rightarrow>
           (case map_of d ''minsize'' of
              None \<Rightarrow> Inr (v1\<lparr>Type := partType\<rparr>)
            | Some x \<Rightarrow>
                (case decodeSize x of
                   Inl err \<Rightarrow> Inl (MinsizeError ''TOML unmarshal:'' err)
                 | Inr minsize \<Rightarrow> Inr (v1\<lparr>Type := partType, MinSize := minsize\<rparr>))))"
proof -
  from assms(1) have "(case map_of d ''type'' of
        None \<Rightarrow> Inr ''plain''
      | Some typeField \<Rightarrow>
          (case typeField of
             GString typeStr \<Rightarrow> Inr typeStr
           | _ \<Rightarrow> Inl (TypeNotString ''TOML unmarshal:'' typeField))) = Inr partType"
    by (simp add: lookupType_def)
  with assms(2) show ?thesis
    unfolding UnmarshalTOML_def Let_def
    by (simp del: marshal.simps split: sum.splits option.splits)
qed

lemma sniff_loop_no_type:
  "\<forall>key \<in> fst ` set kvs. foldName key \<noteq> ''TYPE'' \<Longrightarrow>
   \<exists>M. object_loop False typeSniffer_flds kvs s saved = Inr (s\<lparr>ts_MinSize := M\<rparr>, saved)"
proof (induction kvs arbitrary: s)
  case Nil
  have "s = s\<lparr>ts_MinSize := ts_MinSize s\<rparr>" by simp
  then show ?case by (metis object_loop.simps(1))
next
  case (Cons kv kvs)
  obtain key val where kv: "kv = (key, val)" by (cases kv)
  from Cons.prems kv have key: "foldName key \<noteq> ''TYPE''"
    and rest: "\<forall>key \<in> fst ` set kvs. foldName key \<noteq> ''TYPE''"
    by simp_all
  show ?case
  proof (cases "foldName key = ''MINSIZE''")
    case True
    from Cons.IH [OF rest, of "s\<lparr>ts_MinSize := anyOfJSON val\<rparr>"] key True
    show ?thesis
      by (auto simp: kv findField_typeSniffer decode_any_def)
  next
    case False
    from Cons.IH [OF rest, of s] key False
    show ?thesis
      by (simp add: kv findField_typeSniffer)
  qed
qed

lemma sniffType_absent:
  assumes "\<forall>key \<in> fst ` set kvs. foldName key \<noteq> ''TYPE''"
  shows "sniffType (JObject kvs) = Inr ''plain''"
proof -
  from sniff_loop_no_type [OF assms, of zero_typeSniffer None] obtain M where
    "object_loop False typeSniffer_flds kvs zero_typeSniffer None
     = Inr (zero_typeSniffer\<lparr>ts_MinSize := M\<rparr>, None)"
    by blast
  then show ?thesis
    by (simp add: sniffType_def unmarshal_def decode_struct_def zero_typeSniffer_def)
qed

section \<open>The claims about the two decoders\<close>

text \<open>
  C3. A document whose type is none of \<open>plain\<close>, \<open>btrfs\<close> and \<open>lvm\<close> is never
  accepted. The JSON decoder fails with the unknown-partition-type error for the type
  that its sniffer selects. The TOML decoder serialises the map before it looks at the
  type, so for the type string found in the map it fails with the
  unknown-partition-type error when the map can be written as JSON, and with the error
  of the serialisation when it cannot.
\<close>

theorem unknown_partition_type_rejected:
  "(sniffType data = Inr partType \<and> partType \<notin> {''plain'', ''btrfs'', ''lvm''} \<longrightarrow>
      UnmarshalJSON decodeSize v data = Inl (UnknownPartitionType ''JSON unmarshal:'' partType))
   \<and> (lookupType d = Inr typeStr \<and> typeStr \<notin> {''plain'', ''btrfs'', ''lvm''} \<longrightarrow>
      UnmarshalTOML decodeSize v (GMap d)
      = (case marshal (GMap d) of
           Inl err \<Rightarrow> Inl (MarshalError ''TOML unmarshal:'' err)
         | Inr dataJSON \<Rightarrow> Inl (UnknownPartitionType ''TOML unmarshal:'' typeStr)))"
  using sniffType_unknown [of data partType decodeSize v]
    lookupType_unknown [of d typeStr decodeSize v]
  by blast

theorem unknown_partition_type_rejected_witness:
  "UnmarshalJSON decodeSizeInt zeroPartition
     (JObject [(''type'', JString ''raid''), (''mountpoint'', JString ''/'')])
   = Inl (UnknownPartitionType ''JSON unmarshal:'' ''raid'')
   \<and> UnmarshalTOML decodeSizeInt zeroPartition
     (GMap [(''type'', GString ''raid''), (''mountpoint'', GString ''/'')])
   = Inl (UnknownPartitionType ''TOML unmarshal:'' ''raid'')"
proof -
  have sniffed: "sniffType (JObject [(''type'', JString ''raid''), (''mountpoint'', JString ''/'')])
    = Inr ''raid''"
    by code_simp
  have found: "lookupType [(''type'', GString ''raid''), (''mountpoint'', GString ''/'')] = Inr ''raid''"
    by code_simp
  have written: "marshal (GMap [(''type'', GString ''raid''), (''mountpoint'', GString ''/'')])
    = Inr (JObject [(''mountpoint'', JString ''/''), (''type'', JString ''raid'')])"
    by code_simp
  have unknown: "''raid'' \<notin> {''plain'', ''btrfs'', ''lvm''}"
    by simp
  from unknown_partition_type_rejected
    [where data = "JObject [(''type'', JString ''raid''), (''mountpoint'', JString ''/'')]"
      and partType = "''raid''" and typeStr = "''raid''"
      and d = "[(''type'', GString ''raid''), (''mountpoint'', GString ''/'')]"
      and decodeSize = decodeSizeInt and v = zeroPartition]
    sniffed found unknown
  show ?thesis
    by (simp add: written)
qed

text \<open>
  The map with the type \<open>raid\<close> and a NaN among its values is rejected by the TOML
  decoder, but with the error of \<^verbatim>\<open>json.Marshal\<close>, not with the
  unknown-partition-type error.
\<close>

theorem unknown_partition_type_marshal_error:
  "lookupType [(''type'', GString ''raid''), (''weight'', GFloat64 NaN)] = Inr ''raid''
   \<and> UnmarshalTOML decodeSizeInt zeroPartition
       (GMap [(''type'', GString ''raid''), (''weight'', GFloat64 NaN)])
     = Inl (MarshalError ''TOML unmarshal:'' (UnsupportedValue NaN))
   \<and> UnmarshalTOML decodeSizeInt zeroPartition
       (GMap [(''type'', GString ''raid''), (''weight'', GFloat64 NaN)])
     \<noteq> Inl (UnknownPartitionType ''TOML unmarshal:'' ''raid'')"
  by code_simp

text \<open>
  A document that either decoder accepts has the partition type that the decoder
  selected, one of the three, and every top-level key of it names a field of the
  local struct of that variant.
\<close>

lemma accepted_JSON:
  assumes ok: "UnmarshalJSON decodeSize v (JObject kvs) = Inr v'"
  shows "sniffType (JObject kvs) = Inr (Type v')"
    and "Type v' \<in> set partTypes"
    and "list_all (validKey (variantKeys (Type v'))) (map fst kvs)"
proof -
  from UnmarshalJSON_Inr [OF ok] obtain v1 where
    t: "sniffType (JObject kvs) = Inr (Type v')"
    and d: "decodeByType decodeSize ''JSON unmarshal:'' (Type v') v (JObject kvs) = Inr v1"
    by blast
  from t show "sniffType (JObject kvs) = Inr (Type v')" .
  from decodeByType_keys [OF d]
  show "Type v' \<in> set partTypes"
    and "list_all (validKey (variantKeys (Type v'))) (map fst kvs)"
    by blast+
qed

lemma accepted_TOML:
  assumes ok: "UnmarshalTOML decodeSize v (GMap d) = Inr v'"
  shows "lookupType d = Inr (Type v')"
    and "Type v' \<in> set partTypes"
    and "list_all (validKey (variantKeys (Type v'))) (map fst d)"
proof -
  from UnmarshalTOML_Inr [OF ok] obtain dataJSON v1 where
    t: "lookupType d = Inr (Type v')"
    and m: "marshal (GMap d) = Inr dataJSON"
    and d: "decodeByType decodeSize ''TOML unmarshal:'' (Type v') v dataJSON = Inr v1"
    by blast
  from marshal_GMap_is_object [OF m] obtain kvs where j: "dataJSON = JObject kvs"
    by blast
  from t show "lookupType d = Inr (Type v')" .
  from decodeByType_keys [OF d [unfolded j]]
  have ty: "Type v' \<in> set partTypes"
    and keys: "list_all (validKey (variantKeys (Type v'))) (map fst kvs)"
    by blast+
  from ty show "Type v' \<in> set partTypes" .
  from keys marshal_GMap_keys [OF m [unfolded j]]
  show "list_all (validKey (variantKeys (Type v'))) (map fst d)"
    unfolding list_all_iff by blast
qed

lemma foreignFields_invalid:
  "list_all (\<lambda>partType. list_all (\<lambda>key. \<not> validKey (variantKeys partType) key)
     (foreignFields partType)) partTypes"
  by code_simp

text \<open>
  C4. A document with a top-level key that names no field of the variant selected by
  its type is rejected, by the JSON decoder and by the TOML decoder; and no field of
  another variant is a field of the selected one. In particular \<open>logical_volumes\<close>
  is foreign to \<open>plain\<close>, and \<open>mountpoint\<close> is foreign to \<open>lvm\<close>.
\<close>

theorem foreign_fields_rejected:
  "(sniffType (JObject kvs) = Inr partType \<and> key \<in> fst ` set kvs
      \<and> \<not> validKey (variantKeys partType) key \<longrightarrow>
      isl (UnmarshalJSON decodeSize v (JObject kvs)))
   \<and> (lookupType d = Inr partType \<and> key \<in> fst ` set d
      \<and> \<not> validKey (variantKeys partType) key \<longrightarrow>
      isl (UnmarshalTOML decodeSize v (GMap d)))
   \<and> (partType \<in> set partTypes \<and> key \<in> set (foreignFields partType) \<longrightarrow>
      \<not> validKey (variantKeys partType) key)"
proof (intro conjI impI)
  assume a: "sniffType (JObject kvs) = Inr partType \<and> key \<in> fst ` set kvs
    \<and> \<not> validKey (variantKeys partType) key"
  show "isl (UnmarshalJSON decodeSize v (JObject kvs))"
  proof (cases "UnmarshalJSON decodeSize v (JObject kvs)")
    case (Inr v')
    from accepted_JSON(1,3) [OF Inr] a have "validKey (variantKeys partType) key"
      by (auto simp: list_all_iff)
    with a show ?thesis by blast
  qed simp
next
  assume a: "lookupType d = Inr partType \<and> key \<in> fst ` set d
    \<and> \<not> validKey (variantKeys partType) key"
  show "isl (UnmarshalTOML decodeSize v (GMap d))"
  proof (cases "UnmarshalTOML decodeSize v (GMap d)")
    case (Inr v')
    from accepted_TOML(1,3) [OF Inr] a have "validKey (variantKeys partType) key"
      by (auto simp: list_all_iff)
    with a show ?thesis by blast
  qed simp
next
  assume "partType \<in> set partTypes \<and> key \<in> set (foreignFields partType)"
  with foreignFields_invalid show "\<not> validKey (variantKeys partType) key"
    unfolding list_all_iff by blast
qed

theorem foreign_fields_rejected_witness:
  "isl (UnmarshalJSON decodeSizeInt zeroPartition
     (JObject [(''type'', JString ''plain''), (''mountpoint'', JString ''/data''),
               (''logical_volumes'', JArray [])]))
   \<and> isl (UnmarshalTOML decodeSizeInt zeroPartition
     (GMap [(''type'', GString ''lvm''), (''name'', GString ''vg''),
            (''mountpoint'', GString ''/data'')]))
   \<and> \<not> validKey (variantKeys ''plain'') ''logical_volumes''
   \<and> \<not> validKey (variantKeys ''lvm'') ''mountpoint''"
proof -
  let ?kvs = "[(''type'', JString ''plain''), (''mountpoint'', JString ''/data''),
    (''logical_volumes'', JArray [])]"
  let ?d = "[(''type'', GString ''lvm''), (''name'', GString ''vg''),
    (''mountpoint'', GString ''/data'')]"
  have sniffed: "sniffType (JObject ?kvs) = Inr ''plain''"
    by code_simp
  have found: "lookupType ?d = Inr ''lvm''"
    by code_simp
  have types: "''plain'' \<in> set partTypes" "''lvm'' \<in> set partTypes"
    by (simp_all add: partTypes_def)
  have foreign: "''logical_volumes'' \<in> set (foreignFields ''plain'')"
    "''mountpoint'' \<in> set (foreignFields ''lvm'')"
    by code_simp+
  from foreign_fields_rejected
    [where partType = "''plain''" and key = "''logical_volumes''" and kvs = ?kvs
      and decodeSize = decodeSizeInt and v = zeroPartition]
    sniffed types foreign
  have plain: "isl (UnmarshalJSON decodeSizeInt zeroPartition (JObject ?kvs))"
    "\<not> validKey (variantKeys ''plain'') ''logical_volumes''"
    by simp_all
  from foreign_fields_rejected
    [where partType = "''lvm''" and key = "''mountpoint''" and d = ?d
      and decodeSize = decodeSizeInt and v = zeroPartition]
    found types foreign
  have lvm: "isl (UnmarshalTOML decodeSizeInt zeroPartition (GMap ?d))"
    "\<not> validKey (variantKeys ''lvm'') ''mountpoint''"
    by simp_all
  from plain lvm show ?thesis by blast
qed

text \<open>
  The two documents that the spec names are rejected on both paths: a \<open>plain\<close>
  partition with \<open>logical_volumes\<close>, and an \<open>lvm\<close> partition with a top-level
  \<open>mountpoint\<close>.
\<close>

lemma plain_with_logical_volumes_rejected:
  "isl (UnmarshalJSON decodeSizeInt zeroPartition
     (JObject [(''type'', JString ''plain''), (''mountpoint'', JString ''/''),
               (''logical_volumes'', JArray [])]))
   \<and> isl (UnmarshalTOML decodeSizeInt zeroPartition
     (GMap [(''type'', GString ''plain''), (''mountpoint'', GString ''/''),
            (''logical_volumes'', GSlice [])]))"
  by code_simp

lemma lvm_with_mountpoint_rejected:
  "isl (UnmarshalJSON decodeSizeInt zeroPartition
     (JObject [(''type'', JString ''lvm''), (''mountpoint'', JString ''/'')]))
   \<and> isl (UnmarshalTOML decodeSizeInt zeroPartition
     (GMap [(''type'', GString ''lvm''), (''mountpoint'', GString ''/'')]))"
  by code_simp

text \<open>
  C5. With the type field the empty string, the JSON decoder decodes the document as a
  \<open>plain\<close> partition, and the TOML decoder rejects the same document: it takes the
  empty string for the partition type and finds no such type.
\<close>

theorem empty_type_plain_in_JSON_unknown_in_TOML:
  "UnmarshalJSON decodeSizeInt zeroPartition
     (JObject [(''type'', JString []), (''mountpoint'', JString ''/data'')])
   = Inr (zeroPartition\<lparr>Type := ''plain'',
            FilesystemTypedCustomization := zeroFS\<lparr>Mountpoint := ''/data''\<rparr>\<rparr>)
   \<and> UnmarshalTOML decodeSizeInt zeroPartition
     (GMap [(''type'', GString []), (''mountpoint'', GString ''/data'')])
   = Inl (UnknownPartitionType ''TOML unmarshal:'' [])"
  by code_simp

text \<open>
  What holds of the claim: the JSON decoder takes a document with no type field
  (\<open>sniffType_absent\<close> above) and one whose type is the empty string
  (\<open>sniffType_member\<close> above) for \<open>plain\<close>, and the TOML decoder a map with no
  \<open>type\<close> entry. An empty type string in the map is rejected on the TOML path
  whatever else the map holds.
\<close>

lemma sniffType_empty:
  "unmarshal False typeSniffer_flds data zero_typeSniffer = Inr typeSniffer \<Longrightarrow>
   ts_Type typeSniffer = [] \<Longrightarrow> sniffType data = Inr ''plain''"
  by (simp add: sniffType_def)

lemma lookupType_absent: "map_of d ''type'' = None \<Longrightarrow> lookupType d = Inr ''plain''"
  by (simp add: lookupType_def)

lemma UnmarshalTOML_empty_type:
  "map_of d ''type'' = Some (GString []) \<Longrightarrow> isl (UnmarshalTOML decodeSize v (GMap d))"
  using lookupType_unknown [of d "[]" decodeSize v]
  by (auto simp: lookupType_def split: sum.splits)

text \<open>
  C6. For a map that can be serialised, whose \<open>type\<close> entry is absent or a
  non-empty string, whose only keys that read as \<open>type\<close> or \<open>minsize\<close> when letter
  case is folded are these two names themselves, and whose \<open>minsize\<close> entry, if it
  has one, is not nil and is read by \<^verbatim>\<open>decodeSize\<close> as the value that
  \<^verbatim>\<open>encoding/json\<close> reads from its serialisation is, the TOML decoder on the map and
  the JSON decoder on the serialisation of the map both fail, or both succeed with the
  same partition customization.
\<close>

theorem UnmarshalTOML_agrees_with_UnmarshalJSON:
  assumes m: "marshal (GMap d) = Inr dataJSON"
    and t: "map_of d ''type'' = None
      \<or> (\<exists>typeStr. map_of d ''type'' = Some (GString typeStr) \<and> typeStr \<noteq> [])"
    and k: "\<forall>key \<in> fst ` set d.
      (foldName key = ''TYPE'' \<longrightarrow> key = ''type'') \<and> (foldName key = ''MINSIZE'' \<longrightarrow> key = ''minsize'')"
    and z: "\<forall>x j. map_of d ''minsize'' = Some x \<and> marshal x = Inr j \<longrightarrow>
      anyOfJSON j \<noteq> GNil \<and> decodeSize (anyOfJSON j) = decodeSize x"
  shows "sameResult (UnmarshalTOML decodeSize v (GMap d)) (UnmarshalJSON decodeSize v dataJSON)"
proof -
  from marshal_GMap_is_object [OF m] obtain kvs where j: "dataJSON = JObject kvs"
    by blast
  note m' = m [unfolded j]
  note mem = marshal_GMap_members [OF m']
  define partType where
    "partType = (case map_of d ''type'' of Some (GString typeStr) \<Rightarrow> typeStr | _ \<Rightarrow> ''plain'')"
  define T where "T = (case map_of d ''type'' of Some (GString typeStr) \<Rightarrow> typeStr | _ \<Rightarrow> [])"
  define M where "M = (case map_of kvs ''minsize'' of Some j \<Rightarrow> anyOfJSON j | None \<Rightarrow> GNil)"
  from t have looked: "lookupType d = Inr partType"
    by (auto simp: lookupType_def partType_def)
  from t have sniffedType: "partType = (if T \<noteq> [] then T else ''plain'')"
    by (auto simp: partType_def T_def)
  have sniffed: "unmarshal False typeSniffer_flds dataJSON zero_typeSniffer
      = Inr \<lparr>ts_Type = T, ts_MinSize = M\<rparr>"
    unfolding j T_def M_def by (rule sniffed_marshalled [OF m' t k])
  note json = UnmarshalJSON_sniffed [OF sniffed sniffedType, of decodeSize v]
  note toml = UnmarshalTOML_looked [OF looked m, of decodeSize v]
  have size: "(case map_of d ''minsize'' of
        None \<Rightarrow> M = GNil
      | Some x \<Rightarrow> M \<noteq> GNil \<and> decodeSize M = decodeSize x)"
  proof (cases "map_of d ''minsize''")
    case None
    with mem(2) [of "''minsize''"] show ?thesis by (simp add: M_def)
  next
    case (Some x)
    with mem(2) [of "''minsize''"] obtain j where "map_of kvs ''minsize'' = Some j" "marshal x = Inr j"
      by auto
    with Some z show ?thesis by (auto simp: M_def)
  qed
  show ?thesis
  proof (cases "decodeByType decodeSize ''TOML unmarshal:'' partType v dataJSON")
    case (Inl err)
    then have "isl (decodeByType decodeSize ''JSON unmarshal:'' partType v dataJSON)"
      using decodeByType_prefix(2) [of decodeSize "''TOML unmarshal:''" partType v dataJSON] by simp
    with Inl show ?thesis
      unfolding json toml by (auto simp: sameResult_def split: sum.splits)
  next
    case (Inr v1)
    from decodeByType_prefix(1) [OF this]
    have "decodeByType decodeSize ''JSON unmarshal:'' partType v dataJSON = Inr v1" .
    with Inr size show ?thesis
      unfolding json toml by (auto simp: sameResult_def split: sum.splits option.splits)
  qed
qed


theorem UnmarshalTOML_agrees_with_UnmarshalJSON_witness:
  "sameResult
     (UnmarshalTOML decodeSizeInt zeroPartition
        (GMap [(''type'', GString ''lvm''), (''name'', GString ''vg''), (''minsize'', GInt64 1024)]))
     (UnmarshalJSON decodeSizeInt zeroPartition
        (JObject [(''minsize'', JNumber 1024), (''name'', JString ''vg''), (''type'', JString ''lvm'')]))
   \<and> UnmarshalTOML decodeSizeInt zeroPartition
        (GMap [(''type'', GString ''lvm''), (''name'', GString ''vg''), (''minsize'', GInt64 1024)])
     = Inr (zeroPartition\<lparr>Type := ''lvm'', MinSize := 1024, VGCustomization := zeroVG\<lparr>Name := ''vg''\<rparr>\<rparr>)"
proof
  let ?d = "[(''type'', GString ''lvm''), (''name'', GString ''vg''), (''minsize'', GInt64 1024)]"
  have m: "marshal (GMap ?d)
    = Inr (JObject [(''minsize'', JNumber 1024), (''name'', JString ''vg''), (''type'', JString ''lvm'')])"
    by code_simp
  have t: "map_of ?d ''type'' = None
      \<or> (\<exists>typeStr. map_of ?d ''type'' = Some (GString typeStr) \<and> typeStr \<noteq> [])"
    by simp
  have k: "\<forall>key \<in> fst ` set ?d.
      (foldName key = ''TYPE'' \<longrightarrow> key = ''type'') \<and> (foldName key = ''MINSIZE'' \<longrightarrow> key = ''minsize'')"
    by code_simp
  have "marshal (GInt64 1024) = Inr (JNumber 1024)"
    by code_simp
  moreover have "decodeSizeInt (GFloat64 (Finite 1024)) = decodeSizeInt (GInt64 1024)"
    by code_simp
  ultimately have z: "\<forall>x j. map_of ?d ''minsize'' = Some x \<and> marshal x = Inr j \<longrightarrow>
      anyOfJSON j \<noteq> GNil \<and> decodeSizeInt (anyOfJSON j) = decodeSizeInt x"
    by (auto simp del: marshal.simps)
  from UnmarshalTOML_agrees_with_UnmarshalJSON [OF m t k z, of zeroPartition]
  show "sameResult
     (UnmarshalTOML decodeSizeInt zeroPartition (GMap ?d))
     (UnmarshalJSON decodeSizeInt zeroPartition
        (JObject [(''minsize'', JNumber 1024), (''name'', JString ''vg''), (''type'', JString ''lvm'')]))" .
  show "UnmarshalTOML decodeSizeInt zeroPartition (GMap ?d)
     = Inr (zeroPartition\<lparr>Type := ''lvm'', MinSize := 1024, VGCustomization := zeroVG\<lparr>Name := ''vg''\<rparr>\<rparr>)"
    by code_simp
qed

text \<open>
  The two decoders differ on a key that is \<open>type\<close> in another letter case: the
  sniffer of the JSON decoder reads it as the type, while the TOML decoder looks up
  \<open>type\<close> in the map, finds nothing and decodes a \<open>plain\<close> partition, which has no
  field \<open>name\<close>.
\<close>

theorem paths_differ_on_key_case:
  "marshal (GMap [(''Type'', GString ''lvm''), (''name'', GString ''vg'')])
   = Inr (JObject [(''Type'', JString ''lvm''), (''name'', JString ''vg'')])
   \<and> \<not> sameResult
       (UnmarshalTOML decodeSizeInt zeroPartition
          (GMap [(''Type'', GString ''lvm''), (''name'', GString ''vg'')]))
       (UnmarshalJSON decodeSizeInt zeroPartition
          (JObject [(''Type'', JString ''lvm''), (''name'', JString ''vg'')]))
   \<and> UnmarshalJSON decodeSizeInt zeroPartition
       (JObject [(''Type'', JString ''lvm''), (''name'', JString ''vg'')])
     = Inr (zeroPartition\<lparr>Type := ''lvm'', VGCustomization := zeroVG\<lparr>Name := ''vg''\<rparr>\<rparr>)
   \<and> isl (UnmarshalTOML decodeSizeInt zeroPartition
       (GMap [(''Type'', GString ''lvm''), (''name'', GString ''vg'')]))"
  by code_simp

text \<open>
  They differ on the empty type, which only the JSON decoder takes for \<open>plain\<close>, and,
  with \<open>decodeSizeInt\<close>, on an integer size that is no float64: the TOML decoder
  decodes the int64 of the map, the JSON decoder the float64 read from the document.
\<close>

lemma paths_differ_on_empty_type:
  "marshal (GMap [(''type'', GString []), (''mountpoint'', GString ''/''), (''fs_type'', GString ''xfs'')])
   = Inr (JObject [(''fs_type'', JString ''xfs''), (''mountpoint'', JString ''/''), (''type'', JString [])])
   \<and> UnmarshalJSON decodeSizeInt zeroPartition
     (JObject [(''fs_type'', JString ''xfs''), (''mountpoint'', JString ''/''), (''type'', JString [])])
   = Inr (zeroPartition\<lparr>Type := ''plain'',
            FilesystemTypedCustomization := zeroFS\<lparr>Mountpoint := ''/'', FSType := ''xfs''\<rparr>\<rparr>)
   \<and> UnmarshalTOML decodeSizeInt zeroPartition
     (GMap [(''type'', GString []), (''mountpoint'', GString ''/''), (''fs_type'', GString ''xfs'')])
   = Inl (UnknownPartitionType ''TOML unmarshal:'' [])"
  by code_simp

lemma paths_differ_on_large_minsize:
  "UnmarshalTOML decodeSizeInt zeroPartition (GMap [(''minsize'', GInt64 9007199254740993)])
   = Inr (zeroPartition\<lparr>Type := ''plain'', MinSize := 9007199254740993\<rparr>)
   \<and> marshal (GMap [(''minsize'', GInt64 9007199254740993)])
     = Inr (JObject [(''minsize'', JNumber 9007199254740992)])
   \<and> UnmarshalJSON decodeSizeInt zeroPartition (JObject [(''minsize'', JNumber 9007199254740992)])
     = Inr (zeroPartition\<lparr>Type := ''plain'', MinSize := 9007199254740992\<rparr>)"
  by code_simp

text \<open>
  C7. A logical volume with the unknown field \<open>bogus\<close> is accepted: by
  \<^verbatim>\<open>LVCustomization.UnmarshalJSON\<close> itself, and inside an \<open>lvm\<close> partition on the
  JSON path and on the TOML path, although \<^verbatim>\<open>decodeLVM\<close> sets
  \<^verbatim>\<open>DisallowUnknownFields\<close> on the decoder that decodes the logical volumes. The
  method reads its document with \<^verbatim>\<open>json.Unmarshal\<close>, which is not strict, so the
  flag does not reach the logical volumes. At the same nesting level of a \<open>btrfs\<close>
  partition, where no method stands between, the same field in a subvolume is
  rejected.
\<close>

theorem unknown_field_accepted_in_logical_volume:
  "\<not> validKey lvKeys ''bogus''
   \<and> LVCustomization_UnmarshalJSON decodeSizeInt zeroLV
       (JObject [(''name'', JString ''data''), (''mountpoint'', JString ''/data''),
                 (''bogus'', JBool True)])
     = Inr (zeroLV\<lparr>lv_Name := ''data'',
              lv_FilesystemTypedCustomization := zeroFS\<lparr>Mountpoint := ''/data''\<rparr>\<rparr>)
   \<and> UnmarshalJSON decodeSizeInt zeroPartition
       (JObject [(''type'', JString ''lvm''),
                 (''logical_volumes'',
                    JArray [JObject [(''name'', JString ''data''), (''mountpoint'', JString ''/data''),
                                     (''bogus'', JBool True)]])])
     = Inr (zeroPartition\<lparr>Type := ''lvm'',
              VGCustomization := zeroVG\<lparr>LogicalVolumes :=
                [zeroLV\<lparr>lv_Name := ''data'',
                   lv_FilesystemTypedCustomization := zeroFS\<lparr>Mountpoint := ''/data''\<rparr>\<rparr>]\<rparr>\<rparr>)
   \<and> UnmarshalTOML decodeSizeInt zeroPartition
       (GMap [(''type'', GString ''lvm''),
              (''logical_volumes'',
                 GSlice [GMap [(''name'', GString ''data''), (''mountpoint'', GString ''/data''),
                               (''bogus'', GBool True)]])])
     = Inr (zeroPartition\<lparr>Type := ''lvm'',
              VGCustomization := zeroVG\<lparr>LogicalVolumes :=
                [zeroLV\<lparr>lv_Name := ''data'',
                   lv_FilesystemTypedCustomization := zeroFS\<lparr>Mountpoint := ''/data''\<rparr>\<rparr>]\<rparr>\<rparr>)
   \<and> UnmarshalJSON decodeSizeInt zeroPartition
       (JObject [(''type'', JString ''btrfs''),
                 (''subvolumes'',
                    JArray [JObject [(''name'', JString ''data''), (''mountpoint'', JString ''/data''),
                                     (''bogus'', JBool True)]])])
     = Inl (Prefixed ''JSON unmarshal:'' (PartitionDecodeError ''btrfs'' (UnknownField ''bogus'')))"
  by code_simp

text \<open>
  The extent of the defect: the method never sees the members of a logical-volume
  object whose key is none of \<open>name\<close>, \<open>minsize\<close>, \<open>mountpoint\<close>, \<open>label\<close> and
  \<open>fs_type\<close> (in any letter case). So whenever it accepts an object, it accepts the
  object with such members added, and returns the same logical volume.
\<close>

lemma LVCustomization_drops_unknown_fields:
  "LVCustomization_UnmarshalJSON decodeSize lv (JObject kvs)
   = LVCustomization_UnmarshalJSON decodeSize lv
       (JObject (filter (\<lambda>(key, val). validKey lvKeys key) kvs))"
  using unmarshal_ignores_unknown [of lvAnySize_flds kvs zero_lvAnySize]
  by (simp add: LVCustomization_UnmarshalJSON_def keys_lvAnySize)

lemma LVCustomization_accepts_with_unknown_fields:
  assumes "LVCustomization_UnmarshalJSON decodeSize lv (JObject kvs) = Inr lv'"
    and "\<forall>key \<in> fst ` set extra. \<not> validKey lvKeys key"
  shows "LVCustomization_UnmarshalJSON decodeSize lv (JObject (kvs @ extra)) = Inr lv'"
proof -
  from assms(2) have "filter (\<lambda>(key, val). validKey lvKeys key) extra = []"
    by (auto simp: filter_empty_conv)
  then have "filter (\<lambda>(key, val). validKey lvKeys key) (kvs @ extra)
    = filter (\<lambda>(key, val). validKey lvKeys key) kvs"
    by simp
  with LVCustomization_drops_unknown_fields [of decodeSize lv "kvs @ extra"]
    LVCustomization_drops_unknown_fields [of decodeSize lv kvs] assms(1)
  show ?thesis by simp
qed

text \<open>
  C10. \<^verbatim>\<open>UnmarshalTOML\<close> returns the not-an-object error for every input that is not
  a map, and for a map whose \<open>type\<close> entry is not a string it returns the
  type-must-be-a-string error with the entry it found. Both are returned values: the
  two type assertions are of the form that does not panic.
\<close>

theorem UnmarshalTOML_rejects_ill_typed:
  "((\<forall>d. data \<noteq> GMap d) \<longrightarrow>
      UnmarshalTOML decodeSize v data = Inl (NotAnObject ''TOML unmarshal:''))
   \<and> (map_of d ''type'' = Some typeField \<and> (\<forall>typeStr. typeField \<noteq> GString typeStr) \<longrightarrow>
      UnmarshalTOML decodeSize v (GMap d) = Inl (TypeNotString ''TOML unmarshal:'' typeField))"
proof (intro conjI impI)
  assume "\<forall>d. data \<noteq> GMap d"
  then show "UnmarshalTOML decodeSize v data = Inl (NotAnObject ''TOML unmarshal:'')"
    by (cases data) (simp_all add: UnmarshalTOML_def)
next
  assume "map_of d ''type'' = Some typeField \<and> (\<forall>typeStr. typeField \<noteq> GString typeStr)"
  then show "UnmarshalTOML decodeSize v (GMap d) = Inl (TypeNotString ''TOML unmarshal:'' typeField)"
    by (cases typeField) (simp_all add: UnmarshalTOML_def)
qed

theorem UnmarshalTOML_rejects_ill_typed_witness:
  "UnmarshalTOML decodeSizeInt zeroPartition (GSlice [GString ''plain''])
   = Inl (NotAnObject ''TOML unmarshal:'')
   \<and> UnmarshalTOML decodeSizeInt zeroPartition
       (GMap [(''type'', GInt64 5), (''mountpoint'', GString ''/'')])
     = Inl (TypeNotString ''TOML unmarshal:'' (GInt64 5))"
  using UnmarshalTOML_rejects_ill_typed
    [where data = "GSlice [GString ''plain'']" and decodeSize = decodeSizeInt and v = zeroPartition
      and d = "[(''type'', GInt64 5), (''mountpoint'', GString ''/'')]" and typeField = "GInt64 5"]
  by simp

end
